theory Spec2Isabelle
  imports Main
begin

section \<open>Data model\<close>

text \<open>
  The relational schema of the application (the \<^verbatim>\<open>CREATE TABLE\<close> statements of the schema
  files), one record per table, each table a list of rows in insertion order.  Purely
  descriptive columns that no handler below branches on (priority, category, metadata,
  \<^verbatim>\<open>created_at\<close>, \<^verbatim>\<open>updated_at\<close>, ...) are left out.

  Timestamps are milliseconds since the epoch, as a JavaScript \<^verbatim>\<open>Date\<close> holds them.
  A \<^verbatim>\<open>decimal(10,2)\<close> column is an integer number of hundredths: ten digits, so at most
  99999999.99 in absolute value.  An \<^verbatim>\<open>int(11)\<close> column is a signed 32-bit integer.
\<close>

type_synonym ident = nat
type_synonym timestamp = int
type_synonym amount = int

datatype role = Parent | Child

datatype reward_type = Money | ScreenTime

datatype chore_status =
  Available | Assigned | PendingAcceptance | AutoAccepted
  | InProgress | PendingApproval | Completed | Cancelled

datatype assignment_status = APending | AAccepted | ADeclined | AAutoAccepted | AExpired

datatype submission_status = SPending | SApproved | SRejected | SNeedsRevision

datatype history_status = HGenerated | HCompleted | HSkipped | HMissed

datatype frequency = Daily | Weekly | Monthly | Custom

datatype rotation_type = RotNone | RoundRobin | Random

record family =
  f_id :: ident
  f_family_code :: string

record user =
  u_id :: ident
  u_family_id :: ident
  u_email :: string
  u_password_hash :: string
  u_role :: role
  u_earnings :: amount
  u_screen_time_earned :: int
  u_is_active :: bool
  u_login_attempts :: int
  u_locked_until :: "timestamp option"

record chore =
  c_id :: ident
  c_family_id :: ident
  c_template_id :: "ident option"
  c_title :: string
  c_description :: "string option"
  c_reward_type :: reward_type
  c_reward_amount :: amount
  c_current_reward :: amount
  c_requires_photo :: bool
  c_acceptance_timer :: int
  c_status :: chore_status
  c_due_date :: "timestamp option"
  c_created_by :: ident
  c_assigned_to :: "ident option"
  c_assigned_at :: "timestamp option"
  c_accepted_at :: "timestamp option"
  c_completed_at :: "timestamp option"

record assignment =
  a_id :: ident
  a_chore_id :: ident
  a_user_id :: ident
  a_assigned_by :: ident
  a_assigned_at :: timestamp
  a_accepted_at :: "timestamp option"
  a_declined_at :: "timestamp option"
  a_status :: assignment_status
  a_acceptance_deadline :: "timestamp option"

record submission =
  s_id :: ident
  s_chore_id :: ident
  s_user_id :: ident
  s_assignment_id :: "ident option"
  s_photo_path :: "string option"
  s_notes :: "string option"
  s_submitted_at :: timestamp
  s_reviewed_at :: "timestamp option"
  s_reviewed_by :: "ident option"
  s_status :: submission_status
  s_review_notes :: "string option"

record completed_task =
  t_id :: ident
  t_chore_id :: ident
  t_user_id :: ident
  t_submission_id :: "ident option"
  t_chore_title :: string
  t_chore_description :: "string option"
  t_reward_type :: reward_type
  t_reward_earned :: amount
  t_completed_at :: timestamp
  t_approved_by :: "ident option"
  t_approved_at :: "timestamp option"
  t_photo_path :: "string option"
  t_notes :: "string option"

text \<open>
  A recurring template.  \<^verbatim>\<open>rotation_members\<close> is the JSON column already parsed: a list of
  user ids.  \<^verbatim>\<open>next_due_date\<close> is written by every statement that inserts or updates a
  template, so it is never \<^verbatim>\<open>NULL\<close> here.  The \<^verbatim>\<open>DATE\<close> columns \<^verbatim>\<open>start_date\<close> and
  \<^verbatim>\<open>end_date\<close> are day numbers (days since 1970-01-01).
\<close>

record recurring =
  r_id :: ident
  r_family_id :: ident
  r_template_id :: "ident option"
  r_title :: string
  r_description :: "string option"
  r_reward_type :: reward_type
  r_reward_amount :: amount
  r_requires_photo :: bool
  r_frequency :: frequency
  r_day_of_week :: "string option"
  r_day_of_month :: "int option"
  r_start_date :: int
  r_end_date :: "int option"
  r_last_generated :: "timestamp option"
  r_next_due_date :: timestamp
  r_auto_assign :: bool
  r_assigned_to :: "ident option"
  r_rotation_type :: rotation_type
  r_rotation_members :: "ident list option"
  r_is_active :: bool
  r_created_by :: ident

record history =
  h_id :: ident
  h_recurring_id :: ident
  h_chore_id :: ident
  h_due_date :: timestamp
  h_status :: history_status
  h_assigned_to :: "ident option"

record db =
  families :: "family list"
  users :: "user list"
  chores :: "chore list"
  chore_assignments :: "assignment list"
  chore_submissions :: "submission list"
  completed_tasks :: "completed_task list"
  recurring_chores :: "recurring list"
  recurring_chore_history :: "history list"


section \<open>The persistence gateway\<close>

text \<open>
  The error classes of the HTTP surface with their status codes.  An exception that carries
  no status code (every database error) is answered with 500 by \<^verbatim>\<open>errorHandler\<close>.
\<close>

datatype error =
  ValidationError | Unauthenticated | Forbidden | NotFound | Locked | TooManyRequests | Internal

fun status_code :: "error \<Rightarrow> nat" where
  "status_code ValidationError = 400"
| "status_code Unauthenticated = 401"
| "status_code Forbidden = 403"
| "status_code NotFound = 404"
| "status_code Locked = 423"
| "status_code TooManyRequests = 429"
| "status_code Internal = 500"

text \<open>
  Any statement sent to the server may fail (lost connection, lock timeout, a constraint
  error the model does not decide itself).  Which ones do is not determined by the program:
  \<open>flt k\<close> says whether the \<open>k\<close>-th statement of the request throws.  A statement is a
  function of the database that returns its result and the new database, or \<open>None\<close> when
  the server rejects it for a constraint that the model does decide: the foreign key of
  \<^verbatim>\<open>chores.assigned_to\<close>, and the range of the numeric columns of \<^verbatim>\<open>users\<close> that the handlers
  below do arithmetic on (the server runs MySQL 8.0 in its default strict mode, which
  answers a value out of range with an error).  A connection is the number of statements
  issued so far together with the database as that connection sees it.
\<close>

type_synonym faults = "nat \<Rightarrow> bool"

type_synonym conn = "nat \<times> db"

type_synonym 'a statement = "db \<Rightarrow> ('a \<times> db) option"

definition no_faults :: faults where
  "no_faults = (\<lambda>k. False)"

definition reading :: "(db \<Rightarrow> 'a) \<Rightarrow> 'a statement" where
  "reading q = (\<lambda>d. Some (q d, d))"

definition writing :: "(db \<Rightarrow> db) \<Rightarrow> unit statement" where
  "writing w = (\<lambda>d. Some ((), w d))"

text \<open>
  \<^verbatim>\<open>db.query\<close> on the pool: the statement is committed on its own (autocommit).  On failure
  the exception leaves with the database as it stands.
\<close>

definition query :: "faults \<Rightarrow> 'a statement \<Rightarrow> conn \<Rightarrow> (error \<times> db) + ('a \<times> conn)" where
  "query flt stmt c =
     (if flt (fst c) then Inl (Internal, snd c)
      else case stmt (snd c) of
             None \<Rightarrow> Inl (Internal, snd c)
           | Some (r, d) \<Rightarrow> Inr (r, (Suc (fst c), d)))"

text \<open>\<^verbatim>\<open>connection.execute\<close> inside a transaction: a failure throws out of the callback.\<close>

definition execute :: "faults \<Rightarrow> 'a statement \<Rightarrow> conn \<Rightarrow> error + ('a \<times> conn)" where
  "execute flt stmt c =
     (if flt (fst c) then Inl Internal
      else case stmt (snd c) of
             None \<Rightarrow> Inl Internal
           | Some (r, d) \<Rightarrow> Inr (r, (Suc (fst c), d)))"

text \<open>
  \<^verbatim>\<open>db.transaction(callback)\<close>: \<^verbatim>\<open>beginTransaction\<close>, the callback, \<^verbatim>\<open>commit\<close>; any exception
  (from \<^verbatim>\<open>beginTransaction\<close>, from the callback or from \<^verbatim>\<open>commit\<close>) goes to the \<^verbatim>\<open>catch\<close>
  block, which rolls back and rethrows.
\<close>

definition transaction ::
  "faults \<Rightarrow> (conn \<Rightarrow> error + ('a \<times> conn)) \<Rightarrow> conn \<Rightarrow> (error \<times> db) + ('a \<times> conn)" where
  "transaction flt callback c =
     (if flt (fst c) then Inl (Internal, snd c)
      else case callback (Suc (fst c), snd c) of
             Inl e \<Rightarrow> Inl (e, snd c)
           | Inr (r, c') \<Rightarrow>
               if flt (fst c') then Inl (Internal, snd c)
               else Inr (r, (Suc (fst c'), snd c')))"

definition throw :: "error \<times> db \<Rightarrow> (error + 'a) \<times> db" where
  "throw x = (Inl (fst x), snd x)"

text \<open>The value an \<^verbatim>\<open>AUTO_INCREMENT\<close> key takes on insertion: larger than every key in use.\<close>

definition next_id :: "('a \<Rightarrow> ident) \<Rightarrow> 'a list \<Rightarrow> ident" where
  "next_id key rows = Suc (fold max (map key rows) 0)"

text \<open>\<^verbatim>\<open>const [row] = await db.query(...)\<close>: the first row of the result, if any.\<close>

definition first_row :: "'a list \<Rightarrow> 'a option" where
  "first_row rows = (case rows of [] \<Rightarrow> None | r # _ \<Rightarrow> Some r)"

text \<open>
  \<^verbatim>\<open>ORDER BY key DESC LIMIT 1\<close>: a row with the largest key; among equal keys the server is
  free to return any, here the one inserted first.
\<close>

fun latest_by :: "('a \<Rightarrow> int) \<Rightarrow> 'a list \<Rightarrow> 'a option" where
  "latest_by key [] = None"
| "latest_by key (x # xs) =
     (case latest_by key xs of
        None \<Rightarrow> Some x
      | Some y \<Rightarrow> if key x < key y then Some y else Some x)"

text \<open>The values that a \<^verbatim>\<open>decimal(10,2)\<close> column and an \<^verbatim>\<open>int(11)\<close> column hold.\<close>

definition decimal_10_2 :: "int \<Rightarrow> bool" where
  "decimal_10_2 h \<longleftrightarrow> - 9999999999 \<le> h \<and> h \<le> 9999999999"

definition int_11 :: "int \<Rightarrow> bool" where
  "int_11 n \<longleftrightarrow> - 2147483648 \<le> n \<and> n \<le> 2147483647"

text \<open>
  What the program takes from the machines it runs on.  The JavaScript runtime has a time
  zone: \<open>to_local\<close> gives the local wall-clock time of an instant (milliseconds since
  1970-01-01 00:00 local), \<open>from_local\<close> the instant that the runtime finds for a
  wall-clock time; with daylight saving these are not a fixed shift.  What the database
  server does to a value that is not of the column's type is the server's: \<open>to_integer\<close>
  is the integer it stores for a number (given in hundredths) written to an integer column,
  \<open>to_timestamp\<close> the instant it stores for a JavaScript \<^verbatim>\<open>Date\<close> written to a
  \<^verbatim>\<open>timestamp\<close> column, which keeps whole seconds.
\<close>

record platform =
  to_local :: "timestamp \<Rightarrow> int"
  from_local :: "int \<Rightarrow> timestamp"
  to_integer :: "int \<Rightarrow> int"
  to_timestamp :: "timestamp \<Rightarrow> timestamp"


section \<open>Chore lifecycle\<close>

text \<open>
  The handlers of the chore routes.  \<open>req_user\<close> is the row that the \<^verbatim>\<open>protect\<close> middleware
  loaded for the bearer token, \<open>now\<close> the clock (\<^verbatim>\<open>new Date()\<close>, \<^verbatim>\<open>NOW()\<close>).  A handler returns
  its answer, an error or a result, together with the database it leaves behind.
\<close>

text \<open>
  JavaScript truthiness of an id that may be \<^verbatim>\<open>null\<close>: \<^verbatim>\<open>null\<close> and \<^verbatim>\<open>0\<close> are falsy; and
  \<^verbatim>\<open>x || null\<close>.
\<close>

definition truthy_id :: "ident option \<Rightarrow> bool" where
  "truthy_id x = (case x of None \<Rightarrow> False | Some n \<Rightarrow> n \<noteq> 0)"

definition or_null :: "ident option \<Rightarrow> ident option" where
  "or_null x = (if truthy_id x then x else None)"

definition truthy_string :: "string option \<Rightarrow> bool" where
  "truthy_string x = (case x of None \<Rightarrow> False | Some s \<Rightarrow> s \<noteq> [])"

text \<open>\<^verbatim>\<open>acceptance_timer || 5\<close>, and a number of minutes in milliseconds.\<close>

definition timer_or_default :: "int option \<Rightarrow> int" where
  "timer_or_default t = (case t of None \<Rightarrow> 5 | Some n \<Rightarrow> if n = 0 then 5 else n)"

definition minutes :: "int \<Rightarrow> int" where
  "minutes n = n * 60000"

text \<open>
  The foreign key \<^verbatim>\<open>chores.assigned_to\<close> \<open>\<rightarrow>\<close> \<^verbatim>\<open>users.id\<close>: the server rejects a chore row whose
  assignee is neither \<^verbatim>\<open>NULL\<close> nor the id of a user.
\<close>

definition assigned_to_fk :: "ident option \<Rightarrow> db \<Rightarrow> bool" where
  "assigned_to_fk a d =
     (case a of None \<Rightarrow> True | Some uid \<Rightarrow> list_ex (\<lambda>u. u_id u = uid) (users d))"

definition insert_chore :: "chore \<Rightarrow> ident statement" where
  "insert_chore row d =
     (if assigned_to_fk (c_assigned_to row) d
      then (let i = next_id c_id (chores d)
            in Some (i, d\<lparr>chores := chores d @ [row\<lparr>c_id := i\<rparr>]\<rparr>))
      else None)"

definition insert_assignment :: "assignment \<Rightarrow> ident statement" where
  "insert_assignment row d =
     (let i = next_id a_id (chore_assignments d)
      in Some (i, d\<lparr>chore_assignments := chore_assignments d @ [row\<lparr>a_id := i\<rparr>]\<rparr>))"

definition insert_submission :: "submission \<Rightarrow> ident statement" where
  "insert_submission row d =
     (let i = next_id s_id (chore_submissions d)
      in Some (i, d\<lparr>chore_submissions := chore_submissions d @ [row\<lparr>s_id := i\<rparr>]\<rparr>))"

definition select_chore_by_id :: "ident \<Rightarrow> db \<Rightarrow> chore option" where
  "select_chore_by_id cid d = find (\<lambda>c. c_id c = cid) (chores d)"

definition select_family_chore :: "ident \<Rightarrow> ident \<Rightarrow> db \<Rightarrow> chore option" where
  "select_family_chore cid fam d =
     find (\<lambda>c. c_id c = cid \<and> c_family_id c = fam) (chores d)"

text \<open>
  \<^verbatim>\<open>SELECT * FROM chores WHERE id = ? AND assigned_to = ? AND status = ?\<close>, the precondition
  of accept, decline and submit.
\<close>

definition select_own_chore :: "ident \<Rightarrow> ident \<Rightarrow> chore_status \<Rightarrow> db \<Rightarrow> chore option" where
  "select_own_chore cid uid st d =
     find (\<lambda>c. c_id c = cid \<and> c_assigned_to c = Some uid \<and> c_status c = st) (chores d)"

definition update_chore :: "ident \<Rightarrow> (chore \<Rightarrow> chore) \<Rightarrow> db \<Rightarrow> db" where
  "update_chore cid f d = d\<lparr>chores := map (\<lambda>c. if c_id c = cid then f c else c) (chores d)\<rparr>"


subsection \<open>\<^verbatim>\<open>POST /api/chores\<close>\<close>

record create_body =
  cb_title :: "string option"
  cb_description :: "string option"
  cb_reward_amount :: "amount option"
  cb_reward_type :: "reward_type option"
  cb_requires_photo :: bool
  cb_acceptance_timer :: "int option"
  cb_auto_assign :: bool
  cb_assigned_to :: "ident option"
  cb_rotation_type :: "rotation_type option"
  cb_rotation_members :: "ident list option"

text \<open>
  The initial assignee.  \<open>rnd\<close> stands for the draw of \<^verbatim>\<open>Math.random()\<close>: any index below
  the number of members.
\<close>

definition initial_assignee :: "nat \<Rightarrow> create_body \<Rightarrow> ident option" where
  "initial_assignee rnd b =
     (if \<not> cb_auto_assign b then None
      else if cb_rotation_type b = Some RotNone \<and> truthy_id (cb_assigned_to b)
        then cb_assigned_to b
      else if cb_rotation_type b = Some RoundRobin \<or> cb_rotation_type b = Some Random
        then (case cb_rotation_members b of
                None \<Rightarrow> None
              | Some members \<Rightarrow>
                  if members = [] then None
                  else if cb_rotation_type b = Some RoundRobin then Some (hd members)
                  else Some (members ! (rnd mod length members)))
      else None)"

definition create_callback ::
  "faults \<Rightarrow> timestamp \<Rightarrow> user \<Rightarrow> create_body \<Rightarrow> amount \<Rightarrow> ident option \<Rightarrow> conn
     \<Rightarrow> error + (ident \<times> conn)" where
  "create_callback flt now req_user b reward assignee cn =
     (case execute flt (insert_chore
             \<lparr>c_id = 0,
              c_family_id = u_family_id req_user,
              c_template_id = None,
              c_title = (case cb_title b of None \<Rightarrow> [] | Some t \<Rightarrow> t),
              c_description = (if truthy_string (cb_description b) then cb_description b else None),
              c_reward_type = (case cb_reward_type b of None \<Rightarrow> Money | Some t \<Rightarrow> t),
              c_reward_amount = reward,
              c_current_reward = reward,
              c_requires_photo = cb_requires_photo b,
              c_acceptance_timer = timer_or_default (cb_acceptance_timer b),
              c_status = (if truthy_id assignee then Assigned else Available),
              c_due_date = None,
              c_created_by = u_id req_user,
              c_assigned_to = or_null assignee,
              c_assigned_at = (if truthy_id assignee then Some now else None),
              c_accepted_at = None,
              c_completed_at = None\<rparr>) cn of
        Inl e \<Rightarrow> Inl e
      | Inr (choreId, cn1) \<Rightarrow>
          (case or_null assignee of
             None \<Rightarrow> Inr (choreId, cn1)
           | Some uid \<Rightarrow>
               (case execute flt (insert_assignment
                       \<lparr>a_id = 0, a_chore_id = choreId, a_user_id = uid,
                        a_assigned_by = u_id req_user, a_assigned_at = now,
                        a_accepted_at = None, a_declined_at = None, a_status = APending,
                        a_acceptance_deadline =
                          Some (now + minutes (timer_or_default (cb_acceptance_timer b)))\<rparr>)
                     cn1 of
                  Inl e \<Rightarrow> Inl e
                | Inr (_, cn2) \<Rightarrow> Inr (choreId, cn2))))"

definition create ::
  "faults \<Rightarrow> timestamp \<Rightarrow> nat \<Rightarrow> user \<Rightarrow> create_body \<Rightarrow> db \<Rightarrow> (error + chore option) \<times> db" where
  "create flt now rnd req_user b db0 =
     (if u_role req_user \<noteq> Parent then (Inl Forbidden, db0)
      else if \<not> truthy_string (cb_title b) then (Inl ValidationError, db0)
      else case cb_reward_amount b of
        None \<Rightarrow> (Inl ValidationError, db0)
      | Some reward \<Rightarrow>
     (case transaction flt
             (create_callback flt now req_user b reward (initial_assignee rnd b)) (0, db0) of
        Inl x \<Rightarrow> throw x
      | Inr (choreId, c1) \<Rightarrow>
     (case query flt (reading (select_chore_by_id choreId)) c1 of
        Inl x \<Rightarrow> throw x
      | Inr (row, c2) \<Rightarrow> (Inr row, snd c2))))"


subsection \<open>\<^verbatim>\<open>PATCH /api/chores/:id\<close>\<close>

text \<open>
  The body restricted to the allowed keys; a key that is absent is \<open>None\<close>.  The statement
  built from it sets exactly the columns that are present, \<^verbatim>\<open>status\<close> among them, and no
  other column.
\<close>

record patch =
  p_title :: "string option"
  p_description :: "string option"
  p_reward_amount :: "amount option"
  p_reward_type :: "reward_type option"
  p_requires_photo :: "bool option"
  p_acceptance_timer :: "int option"
  p_status :: "chore_status option"

definition no_updates :: "patch \<Rightarrow> bool" where
  "no_updates p \<longleftrightarrow>
     p_title p = None \<and> p_description p = None \<and> p_reward_amount p = None \<and>
     p_reward_type p = None \<and> p_requires_photo p = None \<and> p_acceptance_timer p = None \<and>
     p_status p = None"

definition apply_patch :: "patch \<Rightarrow> chore \<Rightarrow> chore" where
  "apply_patch p c =
     c\<lparr>c_title := (case p_title p of None \<Rightarrow> c_title c | Some v \<Rightarrow> v),
       c_description := (case p_description p of None \<Rightarrow> c_description c | Some v \<Rightarrow> Some v),
       c_reward_amount := (case p_reward_amount p of None \<Rightarrow> c_reward_amount c | Some v \<Rightarrow> v),
       c_reward_type := (case p_reward_type p of None \<Rightarrow> c_reward_type c | Some v \<Rightarrow> v),
       c_requires_photo := (case p_requires_photo p of None \<Rightarrow> c_requires_photo c | Some v \<Rightarrow> v),
       c_acceptance_timer :=
         (case p_acceptance_timer p of None \<Rightarrow> c_acceptance_timer c | Some v \<Rightarrow> v),
       c_status := (case p_status p of None \<Rightarrow> c_status c | Some v \<Rightarrow> v)\<rparr>"

text \<open>The middleware \<^verbatim>\<open>checkChoreAccess\<close>.\<close>

definition checkChoreAccess :: "faults \<Rightarrow> user \<Rightarrow> ident \<Rightarrow> conn \<Rightarrow> (error \<times> db) + (unit \<times> conn)" where
  "checkChoreAccess flt req_user cid c =
     (case query flt (reading (select_chore_by_id cid)) c of
        Inl x \<Rightarrow> Inl x
      | Inr (None, _) \<Rightarrow> Inl (NotFound, snd c)
      | Inr (Some ch, c1) \<Rightarrow>
          if c_family_id ch \<noteq> u_family_id req_user then Inl (Forbidden, snd c)
          else if u_role req_user = Child \<and> c_assigned_to ch \<noteq> Some (u_id req_user)
                  \<and> c_created_by ch \<noteq> u_id req_user
            then Inl (Forbidden, snd c)
          else Inr ((), c1))"

definition update ::
  "faults \<Rightarrow> user \<Rightarrow> ident \<Rightarrow> patch \<Rightarrow> db \<Rightarrow> (error + chore option) \<times> db" where
  "update flt req_user cid p db0 =
     (case checkChoreAccess flt req_user cid (0, db0) of
        Inl x \<Rightarrow> throw x
      | Inr (_, c1) \<Rightarrow>
     (case query flt (reading (select_chore_by_id cid)) c1 of
        Inl x \<Rightarrow> throw x
      | Inr (None, _) \<Rightarrow> (Inl NotFound, db0)
      | Inr (Some ch, c2) \<Rightarrow>
          if u_role req_user \<noteq> Parent \<and> c_created_by ch \<noteq> u_id req_user
            then (Inl Forbidden, db0)
          else if no_updates p then (Inl ValidationError, db0)
          else
     (case query flt (writing (update_chore cid (apply_patch p))) c2 of
        Inl x \<Rightarrow> throw x
      | Inr (_, c3) \<Rightarrow>
     (case query flt (reading (select_chore_by_id cid)) c3 of
        Inl x \<Rightarrow> throw x
      | Inr (row, c4) \<Rightarrow> (Inr row, snd c4)))))"


subsection \<open>\<^verbatim>\<open>POST /api/chores/:id/assign\<close>\<close>

definition assign_callback ::
  "faults \<Rightarrow> timestamp \<Rightarrow> user \<Rightarrow> chore \<Rightarrow> ident \<Rightarrow> conn \<Rightarrow> error + (unit \<times> conn)" where
  "assign_callback flt now req_user ch uid cn =
     (case execute flt (insert_assignment
             \<lparr>a_id = 0, a_chore_id = c_id ch, a_user_id = uid, a_assigned_by = u_id req_user,
              a_assigned_at = now, a_accepted_at = None, a_declined_at = None,
              a_status = APending,
              a_acceptance_deadline =
                Some (now + minutes (timer_or_default (Some (c_acceptance_timer ch))))\<rparr>) cn of
        Inl e \<Rightarrow> Inl e
      | Inr (_, cn1) \<Rightarrow>
          execute flt
            (\<lambda>d. if assigned_to_fk (Some uid) d
                  then writing (update_chore (c_id ch)
                         (\<lambda>c. c\<lparr>c_assigned_to := Some uid, c_assigned_at := Some now,
                                 c_status := PendingAcceptance\<rparr>)) d
                  else None) cn1)"

definition assign ::
  "faults \<Rightarrow> timestamp \<Rightarrow> user \<Rightarrow> ident \<Rightarrow> ident option \<Rightarrow> db \<Rightarrow> (error + chore option) \<times> db" where
  "assign flt now req_user cid userId db0 =
     (if u_role req_user \<noteq> Parent then (Inl Forbidden, db0)
      else case or_null userId of
        None \<Rightarrow> (Inl ValidationError, db0)
      | Some uid \<Rightarrow>
     (case query flt (reading (select_family_chore cid (u_family_id req_user))) (0, db0) of
        Inl x \<Rightarrow> throw x
      | Inr (None, _) \<Rightarrow> (Inl NotFound, db0)
      | Inr (Some ch, c1) \<Rightarrow>
     (case query flt (reading (\<lambda>d. find (\<lambda>u. u_id u = uid \<and> u_family_id u = u_family_id req_user)
                                      (users d))) c1 of
        Inl x \<Rightarrow> throw x
      | Inr (None, _) \<Rightarrow> (Inl NotFound, db0)
      | Inr (Some usr, c2) \<Rightarrow>
     (case transaction flt (assign_callback flt now req_user ch uid) c2 of
        Inl x \<Rightarrow> throw x
      | Inr (_, c3) \<Rightarrow>
     (case query flt (reading (select_chore_by_id cid)) c3 of
        Inl x \<Rightarrow> throw x
      | Inr (row, c4) \<Rightarrow> (Inr row, snd c4))))))"


subsection \<open>\<^verbatim>\<open>POST /api/chores/:id/accept\<close> and \<^verbatim>\<open>/decline\<close>\<close>

text \<open>
  \<^verbatim>\<open>UPDATE chore_assignments SET status = ?, accepted_at = NOW() WHERE chore_id = ? AND
  user_id = ? AND status = 'pending'\<close>, and the same with \<^verbatim>\<open>declined_at\<close>: every pending
  assignment row of this chore and user.
\<close>

definition answer_assignments ::
  "ident \<Rightarrow> ident \<Rightarrow> (assignment \<Rightarrow> assignment) \<Rightarrow> db \<Rightarrow> db" where
  "answer_assignments cid uid f d =
     d\<lparr>chore_assignments :=
         map (\<lambda>a. if a_chore_id a = cid \<and> a_user_id a = uid \<and> a_status a = APending
                   then f a else a) (chore_assignments d)\<rparr>"

definition accept_callback ::
  "faults \<Rightarrow> timestamp \<Rightarrow> user \<Rightarrow> chore \<Rightarrow> conn \<Rightarrow> error + (unit \<times> conn)" where
  "accept_callback flt now req_user ch cn =
     (case execute flt (writing (answer_assignments (c_id ch) (u_id req_user)
             (\<lambda>a. a\<lparr>a_status := AAccepted, a_accepted_at := Some now\<rparr>))) cn of
        Inl e \<Rightarrow> Inl e
      | Inr (_, cn1) \<Rightarrow>
          execute flt (writing (update_chore (c_id ch)
             (\<lambda>c. c\<lparr>c_status := InProgress, c_accepted_at := Some now\<rparr>))) cn1)"

definition accept :: "faults \<Rightarrow> timestamp \<Rightarrow> user \<Rightarrow> ident \<Rightarrow> db \<Rightarrow> (error + unit) \<times> db" where
  "accept flt now req_user cid db0 =
     (case query flt (reading (select_own_chore cid (u_id req_user) PendingAcceptance))
             (0, db0) of
        Inl x \<Rightarrow> throw x
      | Inr (None, _) \<Rightarrow> (Inl NotFound, db0)
      | Inr (Some ch, c1) \<Rightarrow>
     (case transaction flt (accept_callback flt now req_user ch) c1 of
        Inl x \<Rightarrow> throw x
      | Inr (_, c2) \<Rightarrow> (Inr (), snd c2)))"

definition decline_callback ::
  "faults \<Rightarrow> timestamp \<Rightarrow> user \<Rightarrow> chore \<Rightarrow> conn \<Rightarrow> error + (unit \<times> conn)" where
  "decline_callback flt now req_user ch cn =
     (case execute flt (writing (answer_assignments (c_id ch) (u_id req_user)
             (\<lambda>a. a\<lparr>a_status := ADeclined, a_declined_at := Some now\<rparr>))) cn of
        Inl e \<Rightarrow> Inl e
      | Inr (_, cn1) \<Rightarrow>
          execute flt (writing (update_chore (c_id ch)
             (\<lambda>c. c\<lparr>c_status := Available, c_assigned_to := None, c_assigned_at := None\<rparr>)))
            cn1)"

definition decline :: "faults \<Rightarrow> timestamp \<Rightarrow> user \<Rightarrow> ident \<Rightarrow> db \<Rightarrow> (error + unit) \<times> db" where
  "decline flt now req_user cid db0 =
     (case query flt (reading (select_own_chore cid (u_id req_user) PendingAcceptance))
             (0, db0) of
        Inl x \<Rightarrow> throw x
      | Inr (None, _) \<Rightarrow> (Inl NotFound, db0)
      | Inr (Some ch, c1) \<Rightarrow>
     (case transaction flt (decline_callback flt now req_user ch) c1 of
        Inl x \<Rightarrow> throw x
      | Inr (_, c2) \<Rightarrow> (Inr (), snd c2)))"


subsection \<open>\<^verbatim>\<open>POST /api/chores/:id/submit\<close>\<close>

definition latest_assignment :: "ident \<Rightarrow> ident \<Rightarrow> db \<Rightarrow> assignment option" where
  "latest_assignment cid uid d =
     latest_by a_assigned_at
       (filter (\<lambda>a. a_chore_id a = cid \<and> a_user_id a = uid) (chore_assignments d))"

definition submit_callback ::
  "faults \<Rightarrow> timestamp \<Rightarrow> user \<Rightarrow> chore \<Rightarrow> assignment option \<Rightarrow> string option \<Rightarrow> string option
     \<Rightarrow> conn \<Rightarrow> error + (ident \<times> conn)" where
  "submit_callback flt now req_user ch asg file notes cn =
     (case execute flt (insert_submission
             \<lparr>s_id = 0, s_chore_id = c_id ch, s_user_id = u_id req_user,
              s_assignment_id = map_option a_id asg, s_photo_path = file,
              s_notes = (if truthy_string notes then notes else None),
              s_submitted_at = now, s_reviewed_at = None, s_reviewed_by = None,
              s_status = SPending, s_review_notes = None\<rparr>) cn of
        Inl e \<Rightarrow> Inl e
      | Inr (submissionId, cn1) \<Rightarrow>
          (case execute flt (writing (update_chore (c_id ch)
                  (\<lambda>c. c\<lparr>c_status := PendingApproval\<rparr>))) cn1 of
             Inl e \<Rightarrow> Inl e
           | Inr (_, cn2) \<Rightarrow> Inr (submissionId, cn2)))"

definition submit ::
  "faults \<Rightarrow> timestamp \<Rightarrow> user \<Rightarrow> ident \<Rightarrow> string option \<Rightarrow> string option \<Rightarrow> db
     \<Rightarrow> (error + submission option) \<times> db" where
  "submit flt now req_user cid file notes db0 =
     (case query flt (reading (select_own_chore cid (u_id req_user) InProgress)) (0, db0) of
        Inl x \<Rightarrow> throw x
      | Inr (None, _) \<Rightarrow> (Inl NotFound, db0)
      | Inr (Some ch, c1) \<Rightarrow>
          if c_requires_photo ch \<and> file = None then (Inl ValidationError, db0)
          else
     (case query flt (reading (latest_assignment (c_id ch) (u_id req_user))) c1 of
        Inl x \<Rightarrow> throw x
      | Inr (asg, c2) \<Rightarrow>
     (case transaction flt (submit_callback flt now req_user ch asg file notes) c2 of
        Inl x \<Rightarrow> throw x
      | Inr (submissionId, c3) \<Rightarrow>
     (case query flt (reading (\<lambda>d. find (\<lambda>s. s_id s = submissionId) (chore_submissions d)))
             c3 of
        Inl x \<Rightarrow> throw x
      | Inr (row, c4) \<Rightarrow> (Inr row, snd c4)))))"


subsection \<open>\<^verbatim>\<open>POST /api/chores/:id/approve\<close>\<close>

definition approve_submission :: "timestamp \<Rightarrow> ident \<Rightarrow> ident \<Rightarrow> db \<Rightarrow> db" where
  "approve_submission now reviewer sid d =
     d\<lparr>chore_submissions :=
         map (\<lambda>s. if s_id s = sid
                   then s\<lparr>s_status := SApproved, s_reviewed_at := Some now,
                          s_reviewed_by := Some reviewer\<rparr>
                   else s) (chore_submissions d)\<rparr>"

definition insert_completed_task ::
  "timestamp \<Rightarrow> ident \<Rightarrow> chore \<Rightarrow> ident \<Rightarrow> submission \<Rightarrow> db \<Rightarrow> db" where
  "insert_completed_task now approver ch assignee sub d =
     d\<lparr>completed_tasks := completed_tasks d @
         [\<lparr>t_id = next_id t_id (completed_tasks d),
           t_chore_id = c_id ch,
           t_user_id = assignee,
           t_submission_id = Some (s_id sub),
           t_chore_title = c_title ch,
           t_chore_description = c_description ch,
           t_reward_type = c_reward_type ch,
           t_reward_earned = c_current_reward ch,
           t_completed_at = s_submitted_at sub,
           t_approved_by = Some approver,
           t_approved_at = Some now,
           t_photo_path = s_photo_path sub,
           t_notes = s_notes sub\<rparr>]\<rparr>"

text \<open>
  \<^verbatim>\<open>UPDATE users SET earnings = earnings + ? WHERE id = ?\<close> on a \<^verbatim>\<open>decimal(10,2)\<close> column, and
  \<^verbatim>\<open>UPDATE users SET screen_time_earned = screen_time_earned + ? WHERE id = ?\<close> on an
  \<^verbatim>\<open>int(11)\<close> column.  The parameter is the chore's \<^verbatim>\<open>decimal(10,2)\<close> reward; the sum is
  stored as the column's type has it, and the statement is rejected when the column cannot
  hold it.
\<close>

definition credit_earnings :: "amount \<Rightarrow> ident \<Rightarrow> unit statement" where
  "credit_earnings reward uid d =
     (if list_all (\<lambda>u. u_id u = uid \<longrightarrow> decimal_10_2 (u_earnings u + reward)) (users d)
      then Some ((), d\<lparr>users := map (\<lambda>u. if u_id u = uid
                                         then u\<lparr>u_earnings := u_earnings u + reward\<rparr>
                                         else u) (users d)\<rparr>)
      else None)"

definition credit_screen_time :: "platform \<Rightarrow> amount \<Rightarrow> ident \<Rightarrow> unit statement" where
  "credit_screen_time pf reward uid d =
     (if list_all (\<lambda>u. u_id u = uid \<longrightarrow>
                          int_11 (to_integer pf (u_screen_time_earned u * 100 + reward))) (users d)
      then Some ((), d\<lparr>users := map (\<lambda>u. if u_id u = uid
                                         then u\<lparr>u_screen_time_earned :=
                                                  to_integer pf (u_screen_time_earned u * 100 + reward)\<rparr>
                                         else u) (users d)\<rparr>)
      else None)"

definition complete_chore :: "timestamp \<Rightarrow> ident \<Rightarrow> db \<Rightarrow> db" where
  "complete_chore now cid d =
     update_chore cid (\<lambda>c. c\<lparr>c_status := Completed, c_completed_at := Some now\<rparr>) d"

text \<open>
  \<^verbatim>\<open>SELECT c.*, u.name ... FROM chores c JOIN users u ON c.assigned_to = u.id WHERE c.id = ?
  AND c.family_id = ? AND c.status = 'pending_approval'\<close>: only a chore whose assignee is a
  row of \<^verbatim>\<open>users\<close> is returned, together with that assignee.
\<close>

definition join_assignee :: "db \<Rightarrow> chore \<Rightarrow> (chore \<times> ident) option" where
  "join_assignee d c =
     (case c_assigned_to c of
        None \<Rightarrow> None
      | Some a \<Rightarrow> if list_ex (\<lambda>u. u_id u = a) (users d) then Some (c, a) else None)"

definition select_chore_to_approve :: "ident \<Rightarrow> ident \<Rightarrow> db \<Rightarrow> (chore \<times> ident) option" where
  "select_chore_to_approve cid fam d =
     first_row (List.map_filter (join_assignee d)
       (filter (\<lambda>c. c_id c = cid \<and> c_family_id c = fam \<and> c_status c = PendingApproval)
          (chores d)))"

text \<open>
  \<^verbatim>\<open>SELECT * FROM chore_submissions WHERE chore_id = ? AND user_id = ? ORDER BY submitted_at
  DESC LIMIT 1\<close>.  The user is the chore's assignee; for a chore without assignee the
  comparison with \<^verbatim>\<open>NULL\<close> selects nothing.
\<close>

definition latest_submission :: "ident \<Rightarrow> ident option \<Rightarrow> db \<Rightarrow> submission option" where
  "latest_submission cid assignee d =
     (case assignee of
        None \<Rightarrow> None
      | Some uid \<Rightarrow>
          latest_by s_submitted_at
            (filter (\<lambda>s. s_chore_id s = cid \<and> s_user_id s = uid) (chore_submissions d)))"

definition approve_callback ::
  "faults \<Rightarrow> platform \<Rightarrow> timestamp \<Rightarrow> user \<Rightarrow> chore \<Rightarrow> ident \<Rightarrow> submission \<Rightarrow> conn
     \<Rightarrow> error + (unit \<times> conn)" where
  "approve_callback flt pf now req_user ch assignee sub cn =
     (case execute flt (writing (approve_submission now (u_id req_user) (s_id sub))) cn of
        Inl e \<Rightarrow> Inl e
      | Inr (_, cn1) \<Rightarrow>
     (case execute flt (writing (insert_completed_task now (u_id req_user) ch assignee sub))
             cn1 of
        Inl e \<Rightarrow> Inl e
      | Inr (_, cn2) \<Rightarrow>
     (case (case c_reward_type ch of
              Money \<Rightarrow> execute flt (credit_earnings (c_current_reward ch) assignee) cn2
            | ScreenTime \<Rightarrow>
                execute flt (credit_screen_time pf (c_current_reward ch) assignee) cn2) of
        Inl e \<Rightarrow> Inl e
      | Inr (_, cn3) \<Rightarrow> execute flt (writing (complete_chore now (c_id ch))) cn3)))"

definition approve ::
  "faults \<Rightarrow> platform \<Rightarrow> timestamp \<Rightarrow> user \<Rightarrow> ident \<Rightarrow> db \<Rightarrow> (error + unit) \<times> db" where
  "approve flt pf now req_user cid db0 =
     (if u_role req_user \<noteq> Parent then (Inl Forbidden, db0)
      else case query flt (reading (select_chore_to_approve cid (u_family_id req_user)))
                  (0, db0) of
        Inl x \<Rightarrow> throw x
      | Inr (None, _) \<Rightarrow> (Inl NotFound, db0)
      | Inr (Some (ch, assignee), c1) \<Rightarrow>
     (case query flt (reading (latest_submission (c_id ch) (Some assignee))) c1 of
        Inl x \<Rightarrow> throw x
      | Inr (None, _) \<Rightarrow> (Inl NotFound, db0)
      | Inr (Some sub, c2) \<Rightarrow>
     (case transaction flt (approve_callback flt pf now req_user ch assignee sub) c2 of
        Inl x \<Rightarrow> throw x
      | Inr (_, c3) \<Rightarrow> (Inr (), snd c3))))"


subsection \<open>\<^verbatim>\<open>POST /api/chores/:id/reject\<close>\<close>

definition reject_submission :: "timestamp \<Rightarrow> ident \<Rightarrow> string \<Rightarrow> ident \<Rightarrow> db \<Rightarrow> db" where
  "reject_submission now reviewer notes sid d =
     d\<lparr>chore_submissions :=
         map (\<lambda>s. if s_id s = sid
                   then s\<lparr>s_status := SRejected, s_reviewed_at := Some now,
                          s_reviewed_by := Some reviewer, s_review_notes := Some notes\<rparr>
                   else s) (chore_submissions d)\<rparr>"

definition reject_callback ::
  "faults \<Rightarrow> timestamp \<Rightarrow> user \<Rightarrow> chore \<Rightarrow> submission \<Rightarrow> string option \<Rightarrow> conn
     \<Rightarrow> error + (unit \<times> conn)" where
  "reject_callback flt now req_user ch sub feedback cn =
     (case execute flt (writing (reject_submission now (u_id req_user)
             (case feedback of
                None \<Rightarrow> ''Needs improvement''
              | Some f \<Rightarrow> if f = [] then ''Needs improvement'' else f) (s_id sub))) cn of
        Inl e \<Rightarrow> Inl e
      | Inr (_, cn1) \<Rightarrow>
          execute flt (writing (update_chore (c_id ch) (\<lambda>c. c\<lparr>c_status := InProgress\<rparr>))) cn1)"

definition reject ::
  "faults \<Rightarrow> timestamp \<Rightarrow> user \<Rightarrow> ident \<Rightarrow> string option \<Rightarrow> db \<Rightarrow> (error + unit) \<times> db" where
  "reject flt now req_user cid feedback db0 =
     (if u_role req_user \<noteq> Parent then (Inl Forbidden, db0)
      else case query flt (reading (\<lambda>d. find (\<lambda>c. c_id c = cid \<and>
                    c_family_id c = u_family_id req_user \<and> c_status c = PendingApproval)
                    (chores d))) (0, db0) of
        Inl x \<Rightarrow> throw x
      | Inr (None, _) \<Rightarrow> (Inl NotFound, db0)
      | Inr (Some ch, c1) \<Rightarrow>
     (case query flt (reading (latest_submission (c_id ch) (c_assigned_to ch))) c1 of
        Inl x \<Rightarrow> throw x
      | Inr (None, _) \<Rightarrow> (Inl NotFound, db0)
      | Inr (Some sub, c2) \<Rightarrow>
     (case transaction flt (reject_callback flt now req_user ch sub feedback) c2 of
        Inl x \<Rightarrow> throw x
      | Inr (_, c3) \<Rightarrow> (Inr (), snd c3))))"


subsection \<open>\<^verbatim>\<open>DELETE /api/chores/:id\<close>\<close>

text \<open>
  \<^verbatim>\<open>DELETE FROM chores WHERE id = ?\<close>.  The rows of \<^verbatim>\<open>chore_assignments\<close>,
  \<^verbatim>\<open>chore_submissions\<close>, \<^verbatim>\<open>completed_tasks\<close> and \<^verbatim>\<open>recurring_chore_history\<close> that reference the
  chore go with it (\<^verbatim>\<open>ON DELETE CASCADE\<close>).
\<close>

definition delete_chore_row :: "ident \<Rightarrow> db \<Rightarrow> db" where
  "delete_chore_row cid d =
     d\<lparr>chores := filter (\<lambda>c. c_id c \<noteq> cid) (chores d),
       chore_assignments := filter (\<lambda>a. a_chore_id a \<noteq> cid) (chore_assignments d),
       chore_submissions := filter (\<lambda>s. s_chore_id s \<noteq> cid) (chore_submissions d),
       completed_tasks := filter (\<lambda>t. t_chore_id t \<noteq> cid) (completed_tasks d),
       recurring_chore_history :=
         filter (\<lambda>h. h_chore_id h \<noteq> cid) (recurring_chore_history d)\<rparr>"

definition delete_chore :: "faults \<Rightarrow> user \<Rightarrow> ident \<Rightarrow> db \<Rightarrow> (error + unit) \<times> db" where
  "delete_chore flt req_user cid db0 =
     (if u_role req_user \<noteq> Parent then (Inl Forbidden, db0)
      else case query flt (reading (select_family_chore cid (u_family_id req_user))) (0, db0) of
        Inl x \<Rightarrow> throw x
      | Inr (None, _) \<Rightarrow> (Inl NotFound, db0)
      | Inr (Some ch, c1) \<Rightarrow>
          if c_status ch = Completed then (Inl ValidationError, db0)
          else
     (case query flt (writing (delete_chore_row cid)) c1 of
        Inl x \<Rightarrow> throw x
      | Inr (_, c2) \<Rightarrow> (Inr (), snd c2)))"


section \<open>Login and account lockout\<close>

text \<open>
  The route \<^verbatim>\<open>POST /api/auth/login\<close> as the router declares it: the rate limiter
  \<^verbatim>\<open>authRateLimit(20, 15 * 60 * 1000)\<close>, the validation chain \<^verbatim>\<open>loginValidation\<close>, and the
  handler.  What \<^verbatim>\<open>server.js\<close> mounts in front of the router (among it the limiters of
  \<^verbatim>\<open>express-rate-limit\<close>) is not part of it: a request here is one that has reached the
  router.

  The functions of the libraries \<^verbatim>\<open>validator\<close> and \<^verbatim>\<open>bcrypt\<close> that the route calls.
\<close>

record library =
  isEmail :: "string \<Rightarrow> bool"
  normalizeEmail :: "string \<Rightarrow> string"
  bcrypt_compare :: "string \<Rightarrow> string \<Rightarrow> bool"

text \<open>
  \<^verbatim>\<open>authRateLimit\<close>: a map from \<^verbatim>\<open>req.ip\<close> to the count of requests and the time the count is
  reset.  It answers whether the request goes on, and the map it leaves.
\<close>

type_synonym limiter = "string \<Rightarrow> (nat \<times> timestamp) option"

definition authRateLimit ::
  "nat \<Rightarrow> int \<Rightarrow> timestamp \<Rightarrow> string \<Rightarrow> limiter \<Rightarrow> bool \<times> limiter" where
  "authRateLimit maxAttempts windowMs now key attempts =
     (case attempts key of
        None \<Rightarrow> (True, attempts(key \<mapsto> (1, now + windowMs)))
      | Some (count, resetTime) \<Rightarrow>
          if resetTime < now then (True, attempts(key \<mapsto> (1, now + windowMs)))
          else if maxAttempts \<le> count then (False, attempts)
          else (True, attempts(key \<mapsto> (count + 1, resetTime))))"

text \<open>
  The body of the request; a field that is missing is validated as the empty string.
  \<^verbatim>\<open>trim()\<close> removes the white space at both ends.  The chain checks the trimmed family code
  for 6 to 10 characters, the email with \<^verbatim>\<open>isEmail\<close> and the password for at least 6
  characters; the handler then works on the body as the sanitizers \<^verbatim>\<open>trim\<close> and
  \<^verbatim>\<open>normalizeEmail\<close> leave it.  \<open>None\<close> stands for a non-empty \<^verbatim>\<open>validationResult\<close>.
\<close>

record login_body =
  lb_familyCode :: string
  lb_email :: string
  lb_password :: string

definition white_space :: "char \<Rightarrow> bool" where
  "white_space c \<longleftrightarrow> c \<in> set [CHR 0x09, CHR 0x0A, CHR 0x0B, CHR 0x0C, CHR 0x0D, CHR 0x20, CHR 0xA0]"

definition trim :: "string \<Rightarrow> string" where
  "trim s = rev (dropWhile white_space (rev (dropWhile white_space s)))"

definition loginValidation :: "library \<Rightarrow> login_body \<Rightarrow> login_body option" where
  "loginValidation lib b =
     (let familyCode = trim (lb_familyCode b)
      in if 6 \<le> length familyCode \<and> length familyCode \<le> 10 \<and> isEmail lib (lb_email b) \<and>
            6 \<le> length (lb_password b)
         then Some \<lparr>lb_familyCode = familyCode, lb_email = normalizeEmail lib (lb_email b),
                    lb_password = lb_password b\<rparr>
         else None)"

definition select_login_user :: "string \<Rightarrow> string \<Rightarrow> db \<Rightarrow> user option" where
  "select_login_user familyCode email d =
     find (\<lambda>u. list_ex (\<lambda>f. f_id f = u_family_id u \<and> f_family_code f = familyCode)
                  (families d)
               \<and> u_email u = email \<and> u_is_active u) (users d)"

text \<open>\<^verbatim>\<open>user.locked_until && new Date() < new Date(user.locked_until)\<close>.\<close>

definition locked :: "user \<Rightarrow> timestamp \<Rightarrow> bool" where
  "locked usr now \<longleftrightarrow> (case u_locked_until usr of None \<Rightarrow> False | Some t \<Rightarrow> now < t)"

definition update_user :: "ident \<Rightarrow> (user \<Rightarrow> user) \<Rightarrow> db \<Rightarrow> db" where
  "update_user uid f d = d\<lparr>users := map (\<lambda>u. if u_id u = uid then f u else u) (users d)\<rparr>"

text \<open>
  \<^verbatim>\<open>UPDATE users SET login_attempts = ?, locked_until = ? WHERE id = ?\<close>: the counter goes to
  an \<^verbatim>\<open>int(11)\<close> column, the expiry, a JavaScript \<^verbatim>\<open>Date\<close>, to a \<^verbatim>\<open>timestamp\<close> column.
\<close>

definition record_failure ::
  "platform \<Rightarrow> int \<Rightarrow> timestamp option \<Rightarrow> ident \<Rightarrow> unit statement" where
  "record_failure pf newAttempts lockUntil uid d =
     (if int_11 newAttempts
      then Some ((), update_user uid
                       (\<lambda>u. u\<lparr>u_login_attempts := newAttempts,
                               u_locked_until := map_option (to_timestamp pf) lockUntil\<rparr>) d)
      else None)"

text \<open>
  The handler.  The answer on success is the user the token is issued for.
\<close>

definition login ::
  "faults \<Rightarrow> library \<Rightarrow> platform \<Rightarrow> timestamp \<Rightarrow> login_body \<Rightarrow> db \<Rightarrow> (error + user) \<times> db" where
  "login flt lib pf now body db0 =
     (case loginValidation lib body of
        None \<Rightarrow> (Inl ValidationError, db0)
      | Some b \<Rightarrow>
     (case query flt (reading (select_login_user (lb_familyCode b) (lb_email b))) (0, db0) of
        Inl x \<Rightarrow> throw x
      | Inr (None, _) \<Rightarrow> (Inl Unauthenticated, db0)
      | Inr (Some usr, c1) \<Rightarrow>
          if locked usr now then (Inl Locked, db0)
          else if \<not> bcrypt_compare lib (lb_password b) (u_password_hash usr) then
            (let newAttempts = u_login_attempts usr + 1;
                 lockUntil = (if 5 \<le> newAttempts then Some (now + 15 * 60 * 1000) else None)
             in case query flt (record_failure pf newAttempts lockUntil (u_id usr)) c1 of
                  Inl x \<Rightarrow> throw x
                | Inr (_, c2) \<Rightarrow> (Inl Unauthenticated, snd c2))
          else
            (case query flt (writing (update_user (u_id usr)
                        (\<lambda>u. u\<lparr>u_login_attempts := 0, u_locked_until := None\<rparr>))) c1 of
               Inl x \<Rightarrow> throw x
             | Inr (_, c2) \<Rightarrow> (Inr usr, snd c2))))"

text \<open>The route: the limiter in front of validation and handler.\<close>

definition login_route ::
  "faults \<Rightarrow> library \<Rightarrow> platform \<Rightarrow> timestamp \<Rightarrow> string \<Rightarrow> login_body \<Rightarrow> limiter \<times> db
     \<Rightarrow> (error + user) \<times> limiter \<times> db" where
  "login_route flt lib pf now ip body s =
     (case authRateLimit 20 (15 * 60 * 1000) now ip (fst s) of
        (False, attempts) \<Rightarrow> (Inl TooManyRequests, attempts, snd s)
      | (True, attempts) \<Rightarrow>
          (case login flt lib pf now body (snd s) of (r, d) \<Rightarrow> (r, attempts, d)))"


section \<open>Dates\<close>

text \<open>
  A JavaScript \<^verbatim>\<open>Date\<close> is an instant in milliseconds.  Its calendar methods work in the
  local time of the runtime: they take the wall-clock time of the instant apart into day
  and time within the day, change a component, and go back to the instant of the new
  wall-clock time.  Days are numbered from 1970-01-01, a Thursday; \<^verbatim>\<open>getDay()\<close> is 0 on
  Sunday.
\<close>

definition ms_per_day :: int where
  "ms_per_day = 86400000"

definition local_day :: "platform \<Rightarrow> timestamp \<Rightarrow> int" where
  "local_day pf t = to_local pf t div ms_per_day"

definition time_of_day :: "platform \<Rightarrow> timestamp \<Rightarrow> int" where
  "time_of_day pf t = to_local pf t mod ms_per_day"

definition at_local :: "platform \<Rightarrow> int \<Rightarrow> int \<Rightarrow> timestamp" where
  "at_local pf day tod = from_local pf (day * ms_per_day + tod)"

definition setHours :: "platform \<Rightarrow> int \<Rightarrow> int \<Rightarrow> int \<Rightarrow> int \<Rightarrow> timestamp \<Rightarrow> timestamp" where
  "setHours pf h m s ms t = at_local pf (local_day pf t) (((h * 60 + m) * 60 + s) * 1000 + ms)"

definition getDay :: "platform \<Rightarrow> timestamp \<Rightarrow> int" where
  "getDay pf t = (local_day pf t + 4) mod 7"

text \<open>
  \<^verbatim>\<open>d.setDate(d.getDate() + n)\<close>: the same wall-clock time \<open>n\<close> calendar days later, which
  across a change of the clocks is not \<open>n\<close> times 24 hours later.
\<close>

definition addDays :: "platform \<Rightarrow> int \<Rightarrow> timestamp \<Rightarrow> timestamp" where
  "addDays pf n t = at_local pf (local_day pf t + n) (time_of_day pf t)"


text \<open>
  The proleptic Gregorian calendar: the day number of year \<open>y\<close>, month \<open>m\<close> (1 to 12), day
  \<open>d\<close>, and the date of a day number.
\<close>

definition days_from_civil :: "int \<Rightarrow> int \<Rightarrow> int \<Rightarrow> int" where
  "days_from_civil y m d =
     (let y' = (if m \<le> 2 then y - 1 else y);
          era = y' div 400;
          yoe = y' - era * 400;
          doy = (153 * (if 2 < m then m - 3 else m + 9) + 2) div 5 + d - 1;
          doe = yoe * 365 + yoe div 4 - yoe div 100 + doy
      in era * 146097 + doe - 719468)"

definition civil_from_days :: "int \<Rightarrow> int \<times> int \<times> int" where
  "civil_from_days z =
     (let z' = z + 719468;
          era = z' div 146097;
          doe = z' - era * 146097;
          yoe = (doe - doe div 1460 + doe div 36524 - doe div 146096) div 365;
          doy = doe - (365 * yoe + yoe div 4 - yoe div 100);
          mp = (5 * doy + 2) div 153;
          d = doy - (153 * mp + 2) div 5 + 1;
          m = (if mp < 10 then mp + 3 else mp - 9);
          y = yoe + era * 400 + (if m \<le> 2 then 1 else 0)
      in (y, m, d))"

text \<open>
  \<^verbatim>\<open>d.setDate(n)\<close>: day \<open>n\<close> of the current local month, running over into the neighbouring
  months when \<open>n\<close> is not a day of it; and \<^verbatim>\<open>d.setMonth(d.getMonth() + 1)\<close>: the same day
  of the month in the next month, running over likewise.
\<close>

definition setDate :: "platform \<Rightarrow> int \<Rightarrow> timestamp \<Rightarrow> timestamp" where
  "setDate pf n t =
     (case civil_from_days (local_day pf t) of
        (y, m, d) \<Rightarrow> at_local pf (days_from_civil y m 1 + n - 1) (time_of_day pf t))"

definition addMonth :: "platform \<Rightarrow> timestamp \<Rightarrow> timestamp" where
  "addMonth pf t =
     (case civil_from_days (local_day pf t) of
        (y, m, d) \<Rightarrow>
          at_local pf
            ((if m = 12 then days_from_civil (y + 1) 1 1 else days_from_civil y (m + 1) 1)
               + d - 1)
            (time_of_day pf t))"

text \<open>\<^verbatim>\<open>DATE(t)\<close> and \<^verbatim>\<open>CURDATE()\<close> on the server, whose session runs in UTC.\<close>

definition sql_date :: "timestamp \<Rightarrow> int" where
  "sql_date t = t div ms_per_day"

text \<open>
  \<^verbatim>\<open>xs.indexOf(x)\<close>: the first position of \<open>x\<close>, or \<open>-1\<close>.  \<^verbatim>\<open>s.toLowerCase()\<close> on the
  letters A to Z.
\<close>

fun indexOf :: "'a list \<Rightarrow> 'a \<Rightarrow> int" where
  "indexOf [] x = - 1"
| "indexOf (y # ys) x =
     (if y = x then 0 else (let i = indexOf ys x in if i < 0 then - 1 else i + 1))"

definition toLowerCase :: "string \<Rightarrow> string" where
  "toLowerCase s =
     map (\<lambda>c. case map_of (zip ''ABCDEFGHIJKLMNOPQRSTUVWXYZ'' ''abcdefghijklmnopqrstuvwxyz'') c of
                 None \<Rightarrow> c
               | Some l \<Rightarrow> l) s"

definition daysOfWeek :: "string list" where
  "daysOfWeek =
     [''sunday'', ''monday'', ''tuesday'', ''wednesday'', ''thursday'', ''friday'', ''saturday'']"


section \<open>Recurring templates\<close>

subsection \<open>\<^verbatim>\<open>POST /api/recurring\<close>: the first due date\<close>

text \<open>
  The computation of \<^verbatim>\<open>nextDueDate\<close> in the creation handler.  \<open>start\<close> is the instant
  \<^verbatim>\<open>new Date(start_date)\<close>.
\<close>

definition first_due_date ::
  "platform \<Rightarrow> timestamp \<Rightarrow> frequency \<Rightarrow> string option \<Rightarrow> int option \<Rightarrow> timestamp \<Rightarrow> timestamp" where
  "first_due_date pf now freq day_of_week day_of_month start =
     (let nextDueDate = setHours pf 9 0 0 0 start
      in if \<not> nextDueDate < now then nextDueDate
         else case freq of
           Daily \<Rightarrow> addDays pf 1 nextDueDate
         | Weekly \<Rightarrow>
             (case day_of_week of
                None \<Rightarrow> addDays pf 7 nextDueDate
              | Some s \<Rightarrow>
                  if s = [] then addDays pf 7 nextDueDate
                  else (let targetDay = indexOf daysOfWeek (toLowerCase s)
                        in if targetDay \<noteq> - 1
                           then (let currentDay = getDay pf nextDueDate;
                                     daysToAdd = (targetDay + 7 - currentDay) mod 7
                                 in addDays pf daysToAdd nextDueDate)
                           else addDays pf 7 nextDueDate))
         | Monthly \<Rightarrow>
             (case day_of_month of
                None \<Rightarrow> addMonth pf nextDueDate
              | Some n \<Rightarrow>
                  if n = 0 then addMonth pf nextDueDate
                  else (let onDay = setDate pf n nextDueDate
                        in if onDay < now then addMonth pf onDay else onDay))
         | Custom \<Rightarrow> addDays pf 1 nextDueDate)"

record recurring_body =
  rb_title :: "string option"
  rb_description :: "string option"
  rb_reward_type :: "reward_type option"
  rb_reward_amount :: "amount option"
  rb_requires_photo :: bool
  rb_frequency :: "frequency option"
  rb_day_of_week :: "string option"
  rb_day_of_month :: "int option"
  rb_start_date :: "timestamp option"
  rb_end_date :: "int option"
  rb_auto_assign :: bool
  rb_assigned_to :: "ident option"
  rb_rotation_type :: "rotation_type option"
  rb_rotation_members :: "ident list option"
  rb_template_id :: "ident option"

definition insert_recurring :: "recurring \<Rightarrow> ident statement" where
  "insert_recurring row d =
     (let i = next_id r_id (recurring_chores d)
      in Some (i, d\<lparr>recurring_chores := recurring_chores d @ [row\<lparr>r_id := i\<rparr>]\<rparr>))"

definition create_recurring ::
  "faults \<Rightarrow> platform \<Rightarrow> timestamp \<Rightarrow> user \<Rightarrow> recurring_body \<Rightarrow> db
     \<Rightarrow> (error + recurring option) \<times> db" where
  "create_recurring flt pf now req_user b db0 =
     (if u_role req_user \<noteq> Parent then (Inl Forbidden, db0)
      else case (rb_title b, rb_frequency b, rb_start_date b, rb_reward_type b,
                 rb_reward_amount b) of
        (Some title, Some freq, Some start, Some rtype, Some reward) \<Rightarrow>
          if title = [] \<or> reward = 0 then (Inl ValidationError, db0)
          else
            (case query flt (insert_recurring
                    \<lparr>r_id = 0,
                     r_family_id = u_family_id req_user,
                     r_template_id = or_null (rb_template_id b),
                     r_title = title,
                     r_description =
                       (if truthy_string (rb_description b) then rb_description b else None),
                     r_reward_type = rtype,
                     r_reward_amount = reward,
                     r_requires_photo = rb_requires_photo b,
                     r_frequency = freq,
                     r_day_of_week =
                       (if truthy_string (rb_day_of_week b) then rb_day_of_week b else None),
                     r_day_of_month =
                       (if rb_day_of_month b = Some 0 then None else rb_day_of_month b),
                     r_start_date = sql_date start,
                     r_end_date = rb_end_date b,
                     r_last_generated = None,
                     r_next_due_date =
                       first_due_date pf now freq (rb_day_of_week b) (rb_day_of_month b) start,
                     r_auto_assign = rb_auto_assign b,
                     r_assigned_to = or_null (rb_assigned_to b),
                     r_rotation_type =
                       (case rb_rotation_type b of None \<Rightarrow> RotNone | Some t \<Rightarrow> t),
                     r_rotation_members = rb_rotation_members b,
                     r_is_active = True,
                     r_created_by = u_id req_user\<rparr>) (0, db0) of
               Inl x \<Rightarrow> throw x
             | Inr (newId, c1) \<Rightarrow>
            (case query flt (reading (\<lambda>d. find (\<lambda>r. r_id r = newId) (recurring_chores d)))
                    c1 of
               Inl x \<Rightarrow> throw x
             | Inr (row, c2) \<Rightarrow> (Inr row, snd c2)))
      | _ \<Rightarrow> (Inl ValidationError, db0))"


subsection \<open>Generation\<close>

text \<open>
  The loop body shared, line for line, by \<^verbatim>\<open>POST /api/recurring/generate\<close> and by the
  scheduled job \<^verbatim>\<open>generateRecurringChores\<close>.  \<open>actor\<close> is the requesting user of the
  endpoint and \<open>None\<close> for the scheduled job: the endpoint records that user as creator and
  assigner and reads the generated chore back at the end, the job records the template's
  creator and reads nothing back.  Every statement goes through \<^verbatim>\<open>db.query\<close> on the pool.
\<close>

definition existing_history :: "recurring \<Rightarrow> db \<Rightarrow> history option" where
  "existing_history rc d =
     find (\<lambda>h. h_recurring_id h = r_id rc \<and>
                sql_date (h_due_date h) = sql_date (r_next_due_date rc))
       (recurring_chore_history d)"

definition last_history :: "ident \<Rightarrow> db \<Rightarrow> history option" where
  "last_history rid d =
     latest_by h_due_date (filter (\<lambda>h. h_recurring_id h = rid) (recurring_chore_history d))"

text \<open>
  The round-robin branch once the members are known to be non-empty:
  \<^verbatim>\<open>members[(members.indexOf(lastHistory.assigned_to) + 1) % members.length]\<close> when there is a
  last history row with a truthy assignee, \<^verbatim>\<open>members[0]\<close> otherwise.
\<close>

definition round_robin :: "ident list \<Rightarrow> history option \<Rightarrow> ident" where
  "round_robin members lastHistory =
     (case lastHistory of
        None \<Rightarrow> hd members
      | Some h \<Rightarrow>
          (case h_assigned_to h of
             None \<Rightarrow> hd members
           | Some a \<Rightarrow>
               if a = 0 then hd members
               else (let lastIndex = indexOf members a
                     in members ! nat ((lastIndex + 1) mod int (length members)))))"

definition resolve_assignee ::
  "faults \<Rightarrow> (ident \<Rightarrow> nat) \<Rightarrow> recurring \<Rightarrow> conn \<Rightarrow> (error \<times> db) + (ident option \<times> conn)" where
  "resolve_assignee flt rnd rc c =
     (if \<not> r_auto_assign rc then Inr (None, c)
      else if r_rotation_type rc = RotNone \<and> truthy_id (r_assigned_to rc)
        then Inr (r_assigned_to rc, c)
      else if r_rotation_type rc = RoundRobin \<and> r_rotation_members rc \<noteq> None
        then (case r_rotation_members rc of
                None \<Rightarrow> Inr (None, c)
              | Some members \<Rightarrow>
                  if members = [] then Inr (None, c)
                  else (case query flt (reading (last_history (r_id rc))) c of
                          Inl x \<Rightarrow> Inl x
                        | Inr (lastHistory, c1) \<Rightarrow>
                            Inr (Some (round_robin members lastHistory), c1)))
      else if r_rotation_type rc = Random \<and> r_rotation_members rc \<noteq> None
        then (case r_rotation_members rc of
                None \<Rightarrow> Inr (None, c)
              | Some members \<Rightarrow>
                  if members = [] then Inr (None, c)
                  else Inr (Some (members ! (rnd (r_id rc) mod length members)), c))
      else Inr (None, c))"

definition insert_history :: "history \<Rightarrow> ident statement" where
  "insert_history row d =
     (let i = next_id h_id (recurring_chore_history d)
      in Some (i, d\<lparr>recurring_chore_history := recurring_chore_history d @ [row\<lparr>h_id := i\<rparr>]\<rparr>))"

definition update_recurring :: "ident \<Rightarrow> (recurring \<Rightarrow> recurring) \<Rightarrow> db \<Rightarrow> db" where
  "update_recurring rid f d =
     d\<lparr>recurring_chores := map (\<lambda>r. if r_id r = rid then f r else r) (recurring_chores d)\<rparr>"

text \<open>The due date after a generation: the plain period step.\<close>

definition advance_due_date :: "platform \<Rightarrow> frequency \<Rightarrow> timestamp \<Rightarrow> timestamp" where
  "advance_due_date pf freq t =
     (case freq of
        Daily \<Rightarrow> addDays pf 1 t
      | Weekly \<Rightarrow> addDays pf 7 t
      | Monthly \<Rightarrow> addMonth pf t
      | Custom \<Rightarrow> addDays pf 7 t)"

definition generated_chore :: "timestamp \<Rightarrow> ident \<Rightarrow> recurring \<Rightarrow> ident option \<Rightarrow> chore" where
  "generated_chore now creator rc assignedTo =
     \<lparr>c_id = 0,
      c_family_id = r_family_id rc,
      c_template_id = r_template_id rc,
      c_title = r_title rc,
      c_description = r_description rc,
      c_reward_type = r_reward_type rc,
      c_reward_amount = r_reward_amount rc,
      c_current_reward = r_reward_amount rc,
      c_requires_photo = r_requires_photo rc,
      c_acceptance_timer = 5,
      c_status = (if truthy_id assignedTo then Assigned else Available),
      c_due_date = Some (r_next_due_date rc),
      c_created_by = creator,
      c_assigned_to = assignedTo,
      c_assigned_at = (if truthy_id assignedTo then Some now else None),
      c_accepted_at = None,
      c_completed_at = None\<rparr>"

definition process_template ::
  "faults \<Rightarrow> platform \<Rightarrow> timestamp \<Rightarrow> (ident \<Rightarrow> nat) \<Rightarrow> user option \<Rightarrow> recurring \<Rightarrow> conn
     \<Rightarrow> (error \<times> db) + (ident option \<times> conn)" where
  "process_template flt pf now rnd actor rc c =
     (case query flt (reading (existing_history rc)) c of
        Inl x \<Rightarrow> Inl x
      | Inr (Some existingHistory, c1) \<Rightarrow> Inr (None, c1)
      | Inr (None, c1) \<Rightarrow>
     (case resolve_assignee flt rnd rc c1 of
        Inl x \<Rightarrow> Inl x
      | Inr (assignedTo, c2) \<Rightarrow>
     (let creator = (case actor of None \<Rightarrow> r_created_by rc | Some u \<Rightarrow> u_id u)
      in
     (case query flt (insert_chore (generated_chore now creator rc assignedTo)) c2 of
        Inl x \<Rightarrow> Inl x
      | Inr (choreId, c3) \<Rightarrow>
     (case (case or_null assignedTo of
              None \<Rightarrow> Inr (0, c3)
            | Some uid \<Rightarrow>
                query flt (insert_assignment
                   \<lparr>a_id = 0, a_chore_id = choreId, a_user_id = uid, a_assigned_by = creator,
                    a_assigned_at = now, a_accepted_at = None, a_declined_at = None,
                    a_status = APending, a_acceptance_deadline = None\<rparr>) c3) of
        Inl x \<Rightarrow> Inl x
      | Inr (_, c4) \<Rightarrow>
     (case query flt (insert_history
             \<lparr>h_id = 0, h_recurring_id = r_id rc, h_chore_id = choreId,
              h_due_date = r_next_due_date rc, h_status = HGenerated,
              h_assigned_to = assignedTo\<rparr>) c4 of
        Inl x \<Rightarrow> Inl x
      | Inr (_, c5) \<Rightarrow>
     (case query flt (writing (update_recurring (r_id rc)
             (\<lambda>r. r\<lparr>r_next_due_date :=
                       advance_due_date pf (r_frequency rc) (r_next_due_date rc),
                     r_last_generated := Some now\<rparr>))) c5 of
        Inl x \<Rightarrow> Inl x
      | Inr (_, c6) \<Rightarrow>
     (case actor of
        None \<Rightarrow> Inr (Some choreId, c6)
      | Some u \<Rightarrow>
          (case query flt (reading (select_chore_by_id choreId)) c6 of
             Inl x \<Rightarrow> Inl x
           | Inr (_, c7) \<Rightarrow> Inr (Some choreId, c7))))))))))"

text \<open>
  The \<^verbatim>\<open>for\<close> loop over the selected templates, counting the chores generated.  An
  exception from the body leaves the loop.
\<close>

fun generate_loop ::
  "faults \<Rightarrow> platform \<Rightarrow> timestamp \<Rightarrow> (ident \<Rightarrow> nat) \<Rightarrow> user option \<Rightarrow> recurring list \<Rightarrow> nat \<Rightarrow> conn
     \<Rightarrow> (error \<times> db) + (nat \<times> conn)" where
  "generate_loop flt pf now rnd actor [] n c = Inr (n, c)"
| "generate_loop flt pf now rnd actor (rc # rcs) n c =
     (case process_template flt pf now rnd actor rc c of
        Inl x \<Rightarrow> Inl x
      | Inr (None, c1) \<Rightarrow> generate_loop flt pf now rnd actor rcs n c1
      | Inr (Some choreId, c1) \<Rightarrow> generate_loop flt pf now rnd actor rcs (Suc n) c1)"

text \<open>
  The templates due: active, \<^verbatim>\<open>next_due_date\<close> not after the end of the local day, and
  \<^verbatim>\<open>end_date\<close> absent or not before \<^verbatim>\<open>CURDATE()\<close>; for the endpoint within the caller's family.
\<close>

definition due_templates :: "platform \<Rightarrow> timestamp \<Rightarrow> ident option \<Rightarrow> db \<Rightarrow> recurring list" where
  "due_templates pf now fam d =
     filter (\<lambda>r. (case fam of None \<Rightarrow> True | Some f \<Rightarrow> r_family_id r = f) \<and> r_is_active r \<and>
                 r_next_due_date r \<le> setHours pf 23 59 59 999 now \<and>
                 (case r_end_date r of None \<Rightarrow> True | Some e \<Rightarrow> sql_date now \<le> e))
       (recurring_chores d)"

definition generate ::
  "faults \<Rightarrow> platform \<Rightarrow> timestamp \<Rightarrow> (ident \<Rightarrow> nat) \<Rightarrow> user \<Rightarrow> ident option \<Rightarrow> db
     \<Rightarrow> (error + nat) \<times> db" where
  "generate flt pf now rnd req_user recurringId db0 =
     (if u_role req_user \<noteq> Parent then (Inl Forbidden, db0)
      else case query flt (reading
                  (case or_null recurringId of
                     Some rid \<Rightarrow>
                       (\<lambda>d. filter (\<lambda>r. r_id r = rid \<and> r_family_id r = u_family_id req_user \<and>
                                        r_is_active r) (recurring_chores d))
                   | None \<Rightarrow> due_templates pf now (Some (u_family_id req_user)))) (0, db0) of
        Inl x \<Rightarrow> throw x
      | Inr (recurringChores, c1) \<Rightarrow>
          if recurringChores = [] then (Inr 0, db0)
          else (case generate_loop flt pf now rnd (Some req_user) recurringChores 0 c1 of
                  Inl x \<Rightarrow> throw x
                | Inr (n, c2) \<Rightarrow> (Inr n, snd c2)))"

text \<open>
  The scheduled job: the same over the templates of all families; its \<^verbatim>\<open>catch\<close> block logs
  the exception and throws it again.
\<close>

definition generateRecurringChores ::
  "faults \<Rightarrow> platform \<Rightarrow> timestamp \<Rightarrow> (ident \<Rightarrow> nat) \<Rightarrow> db \<Rightarrow> (error + nat) \<times> db" where
  "generateRecurringChores flt pf now rnd db0 =
     (case query flt (reading (due_templates pf now None)) (0, db0) of
        Inl x \<Rightarrow> throw x
      | Inr (recurringChores, c1) \<Rightarrow>
          if recurringChores = [] then (Inr 0, db0)
          else (case generate_loop flt pf now rnd None recurringChores 0 c1 of
                  Inl x \<Rightarrow> throw x
                | Inr (n, c2) \<Rightarrow> (Inr n, snd c2)))"


section \<open>Sequences of requests\<close>

text \<open>
  The operations that create or change chores, as requests, and the database after a
  sequence of them.  Each request comes with its own pattern of failing statements, its
  clock and the platform it runs on.
\<close>

datatype request =
    Create nat user create_body
  | Update user ident patch
  | Assign user ident "ident option"
  | Accept user ident
  | Decline user ident
  | Submit user ident "string option" "string option"
  | Approve user ident
  | Reject user ident "string option"
  | Delete user ident
  | Generate "ident \<Rightarrow> nat" user "ident option"
  | Scheduled "ident \<Rightarrow> nat"

fun step :: "faults \<Rightarrow> platform \<Rightarrow> timestamp \<Rightarrow> request \<Rightarrow> db \<Rightarrow> db" where
  "step flt pf now (Create rnd u b) d = snd (create flt now rnd u b d)"
| "step flt pf now (Update u cid p) d = snd (update flt u cid p d)"
| "step flt pf now (Assign u cid userId) d = snd (assign flt now u cid userId d)"
| "step flt pf now (Accept u cid) d = snd (accept flt now u cid d)"
| "step flt pf now (Decline u cid) d = snd (decline flt now u cid d)"
| "step flt pf now (Submit u cid file notes) d = snd (submit flt now u cid file notes d)"
| "step flt pf now (Approve u cid) d = snd (approve flt pf now u cid d)"
| "step flt pf now (Reject u cid feedback) d = snd (reject flt now u cid feedback d)"
| "step flt pf now (Delete u cid) d = snd (delete_chore flt u cid d)"
| "step flt pf now (Generate rnd u recurringId) d = snd (generate flt pf now rnd u recurringId d)"
| "step flt pf now (Scheduled rnd) d = snd (generateRecurringChores flt pf now rnd d)"

fun run :: "(faults \<times> platform \<times> timestamp \<times> request) list \<Rightarrow> db \<Rightarrow> db" where
  "run [] d = d"
| "run ((flt, pf, now, rq) # evs) d = run evs (step flt pf now rq d)"

text \<open>Whether a request is an update whose body carries the key \<^verbatim>\<open>status\<close>.\<close>

fun sets_status :: "request \<Rightarrow> bool" where
  "sets_status (Update u cid p) = (p_status p \<noteq> None)"
| "sets_status _ = False"

text \<open>
  The joint consistency of a chore's \<^verbatim>\<open>status\<close> and \<^verbatim>\<open>assigned_to\<close>, and the two properties
  that the schema gives every table state: \<^verbatim>\<open>chores.id\<close> is a primary key, and the
  \<^verbatim>\<open>AUTO_INCREMENT\<close> ids of users start at 1.
\<close>

definition consistent :: "chore \<Rightarrow> bool" where
  "consistent c \<longleftrightarrow> (c_assigned_to c = None) = (c_status c = Available)"

definition chores_consistent :: "db \<Rightarrow> bool" where
  "chores_consistent d \<longleftrightarrow> list_all consistent (chores d)"

definition well_keyed :: "db \<Rightarrow> bool" where
  "well_keyed d \<longleftrightarrow> distinct (map c_id (chores d)) \<and> list_all (\<lambda>u. u_id u \<noteq> 0) (users d)"

definition invariant :: "db \<Rightarrow> bool" where
  "invariant d \<longleftrightarrow> well_keyed d \<and> chores_consistent d"


section \<open>Reference states\<close>

text \<open>
  The database after a successful approval, as the four statements of the callback leave
  it.
\<close>

definition approved_db ::
  "platform \<Rightarrow> timestamp \<Rightarrow> user \<Rightarrow> chore \<Rightarrow> ident \<Rightarrow> submission \<Rightarrow> db \<Rightarrow> db" where
  "approved_db pf now p ch a sub d =
     complete_chore now (c_id ch)
       ((insert_completed_task now (u_id p) ch a sub
           (approve_submission now (u_id p) (s_id sub) d))
        \<lparr>users :=
           map (\<lambda>u. if u_id u = a
                     then (case c_reward_type ch of
                             Money \<Rightarrow> u\<lparr>u_earnings := u_earnings u + c_current_reward ch\<rparr>
                           | ScreenTime \<Rightarrow>
                               u\<lparr>u_screen_time_earned :=
                                    to_integer pf (u_screen_time_earned u * 100 + c_current_reward ch)\<rparr>)
                     else u) (users d)\<rparr>)"

text \<open>Whether the new balance of the assignee fits its column.\<close>

definition fits :: "platform \<Rightarrow> chore \<Rightarrow> ident \<Rightarrow> db \<Rightarrow> bool" where
  "fits pf ch a d \<longleftrightarrow>
     list_all (\<lambda>u. u_id u = a \<longrightarrow>
          (case c_reward_type ch of
             Money \<Rightarrow> decimal_10_2 (u_earnings u + c_current_reward ch)
           | ScreenTime \<Rightarrow>
               int_11 (to_integer pf (u_screen_time_earned u * 100 + c_current_reward ch))))
        (users d)"

text \<open>
  A platform for the examples: a zone at a fixed offset from UTC, and a server that rounds
  to the nearest integer (halves to the even neighbour) and to the nearest second.
\<close>

definition nearest_integer :: "int \<Rightarrow> int" where
  "nearest_integer h =
     (let q = h div 100; r = h mod 100
      in if r < 50 then q else if 50 < r then q + 1 else if even q then q else q + 1)"

definition nearest_second :: "timestamp \<Rightarrow> timestamp" where
  "nearest_second t = (t + 500) div 1000 * 1000"

definition fixed_zone :: "int \<Rightarrow> platform" where
  "fixed_zone offset =
     \<lparr>to_local = (\<lambda>t. t + offset), from_local = (\<lambda>w. w - offset),
      to_integer = nearest_integer, to_timestamp = nearest_second\<rparr>"

definition utc :: platform where
  "utc = fixed_zone 0"


text \<open>A small family: a parent, a child, and a money chore submitted by the child.\<close>

definition ex_parent :: user where
  "ex_parent = \<lparr>u_id = 1, u_family_id = 1, u_email = ''parent@example.org'',
     u_password_hash = ''hash-p'', u_role = Parent, u_earnings = 0, u_screen_time_earned = 0,
     u_is_active = True, u_login_attempts = 0, u_locked_until = None\<rparr>"

definition ex_child :: user where
  "ex_child = \<lparr>u_id = 7, u_family_id = 1, u_email = ''kid@example.org'',
     u_password_hash = ''hash-k'', u_role = Child, u_earnings = 1000, u_screen_time_earned = 30,
     u_is_active = True, u_login_attempts = 0, u_locked_until = None\<rparr>"

definition ex_chore :: chore where
  "ex_chore = \<lparr>c_id = 1, c_family_id = 1, c_template_id = None, c_title = ''Dishes'',
     c_description = None, c_reward_type = Money, c_reward_amount = 500, c_current_reward = 500,
     c_requires_photo = False, c_acceptance_timer = 5, c_status = PendingApproval,
     c_due_date = None, c_created_by = 1, c_assigned_to = Some 7, c_assigned_at = Some 100,
     c_accepted_at = Some 200, c_completed_at = None\<rparr>"

definition ex_submission :: submission where
  "ex_submission = \<lparr>s_id = 1, s_chore_id = 1, s_user_id = 7, s_assignment_id = None,
     s_photo_path = None, s_notes = Some ''done'', s_submitted_at = 300, s_reviewed_at = None,
     s_reviewed_by = None, s_status = SPending, s_review_notes = None\<rparr>"

definition ex_db :: db where
  "ex_db = \<lparr>families = [\<lparr>f_id = 1, f_family_code = ''FAM001''\<rparr>],
     users = [ex_parent, ex_child], chores = [ex_chore], chore_assignments = [],
     chore_submissions = [ex_submission], completed_tasks = [], recurring_chores = [],
     recurring_chore_history = []\<rparr>"

text \<open>The same family with a screen-time chore worth 2.25 minutes.\<close>

definition ex_chore_minutes :: chore where
  "ex_chore_minutes =
     ex_chore\<lparr>c_id := 2, c_reward_type := ScreenTime, c_reward_amount := 225,
              c_current_reward := 225\<rparr>"

definition ex_db_minutes :: db where
  "ex_db_minutes =
     ex_db\<lparr>chores := [ex_chore_minutes],
           chore_submissions := [ex_submission\<lparr>s_id := 2, s_chore_id := 2\<rparr>]\<rparr>"

text \<open>And with a screen-time chore worth a full hour.\<close>

definition ex_chore_hour :: chore where
  "ex_chore_hour =
     ex_chore\<lparr>c_id := 5, c_reward_type := ScreenTime, c_reward_amount := 6000,
              c_current_reward := 6000\<rparr>"

definition ex_db_hour :: db where
  "ex_db_hour =
     ex_db\<lparr>chores := [ex_chore_hour],
           chore_submissions := [ex_submission\<lparr>s_id := 5, s_chore_id := 5\<rparr>]\<rparr>"

definition declined_db :: "timestamp \<Rightarrow> ident \<Rightarrow> ident \<Rightarrow> db \<Rightarrow> db" where
  "declined_db now cid uid d =
     update_chore cid (\<lambda>c. c\<lparr>c_status := Available, c_assigned_to := None, c_assigned_at := None\<rparr>)
       (answer_assignments cid uid (\<lambda>a. a\<lparr>a_status := ADeclined, a_declined_at := Some now\<rparr>) d)"

text \<open>A chore offered to the child and not yet answered, and a chore already paid out.\<close>

definition ex_chore_offered :: chore where
  "ex_chore_offered =
     ex_chore\<lparr>c_id := 3, c_status := PendingAcceptance, c_accepted_at := None\<rparr>"

definition ex_db_offered :: db where
  "ex_db_offered =
     ex_db\<lparr>chores := [ex_chore_offered],
           chore_assignments :=
             [\<lparr>a_id = 1, a_chore_id = 3, a_user_id = 7, a_assigned_by = 1, a_assigned_at = 100,
               a_accepted_at = None, a_declined_at = None, a_status = APending,
               a_acceptance_deadline = Some 300100\<rparr>],
           chore_submissions := []\<rparr>"

definition ex_chore_done :: chore where
  "ex_chore_done = ex_chore\<lparr>c_id := 4, c_status := Completed, c_completed_at := Some 400\<rparr>"

definition ex_db_done :: db where
  "ex_db_done =
     ex_db\<lparr>chores := [ex_chore_done],
           chore_submissions := [ex_submission\<lparr>s_id := 4, s_chore_id := 4, s_status := SApproved\<rparr>],
           completed_tasks :=
             [\<lparr>t_id = 1, t_chore_id = 4, t_user_id = 7, t_submission_id = Some 4,
               t_chore_title = ''Dishes'', t_chore_description = None, t_reward_type = Money,
               t_reward_earned = 500, t_completed_at = 300, t_approved_by = Some 1,
               t_approved_at = Some 400, t_photo_path = None, t_notes = Some ''done''\<rparr>]\<rparr>"

text \<open>
  Stand-ins for the library functions, the child with the password "kidpass" after four
  failed logins, and the same child locked out until 00:15:01.
\<close>

definition ex_compare :: "string \<Rightarrow> string \<Rightarrow> bool" where
  "ex_compare password hash \<longleftrightarrow> hash = ''hash-'' @ password"

definition ex_library :: library where
  "ex_library = \<lparr>isEmail = (\<lambda>s. CHR ''@'' \<in> set s), normalizeEmail = (\<lambda>s. s),
                  bcrypt_compare = ex_compare\<rparr>"

definition ex_db_four_failures :: db where
  "ex_db_four_failures =
     ex_db\<lparr>users := [ex_parent,
                      ex_child\<lparr>u_password_hash := ''hash-kidpass'', u_login_attempts := 4\<rparr>]\<rparr>"

definition ex_db_locked :: db where
  "ex_db_locked =
     ex_db\<lparr>users := [ex_parent,
                      ex_child\<lparr>u_password_hash := ''hash-kidpass'', u_login_attempts := 5,
                               u_locked_until := Some 901000\<rparr>]\<rparr>"

definition ex_login :: "string \<Rightarrow> login_body" where
  "ex_login password =
     \<lparr>lb_familyCode = ''FAM001'', lb_email = ''kid@example.org'', lb_password = password\<rparr>"

text \<open>
  The database after a sequence of login attempts, each at its own time, none of whose
  statements fails.
\<close>

fun logins :: "library \<Rightarrow> platform \<Rightarrow> (timestamp \<times> login_body) list \<Rightarrow> db \<Rightarrow> db" where
  "logins lib pf [] d = d"
| "logins lib pf ((now, body) # rest) d =
     logins lib pf rest (snd (login no_faults lib pf now body d))"

text \<open>
  The assignee that \<open>resolve_assignee\<close> arrives at when its query does not fail, and the
  database after a template has been processed without failure: one chore, one assignment
  if there is a truthy assignee, one history row, and the template moved on.
\<close>

definition assignee_for :: "(ident \<Rightarrow> nat) \<Rightarrow> recurring \<Rightarrow> db \<Rightarrow> ident option" where
  "assignee_for rnd rc d =
     (if \<not> r_auto_assign rc then None
      else if r_rotation_type rc = RotNone \<and> truthy_id (r_assigned_to rc) then r_assigned_to rc
      else if r_rotation_type rc = RoundRobin \<and> r_rotation_members rc \<noteq> None
        then (case r_rotation_members rc of
                None \<Rightarrow> None
              | Some members \<Rightarrow>
                  if members = [] then None
                  else Some (round_robin members (last_history (r_id rc) d)))
      else if r_rotation_type rc = Random \<and> r_rotation_members rc \<noteq> None
        then (case r_rotation_members rc of
                None \<Rightarrow> None
              | Some members \<Rightarrow>
                  if members = [] then None
                  else Some (members ! (rnd (r_id rc) mod length members)))
      else None)"

definition with_chore :: "timestamp \<Rightarrow> ident \<Rightarrow> recurring \<Rightarrow> ident option \<Rightarrow> db \<Rightarrow> db" where
  "with_chore now creator rc assignedTo d =
     d\<lparr>chores := chores d @
          [(generated_chore now creator rc assignedTo)\<lparr>c_id := next_id c_id (chores d)\<rparr>]\<rparr>"

definition with_assignment :: "timestamp \<Rightarrow> ident \<Rightarrow> ident \<Rightarrow> ident option \<Rightarrow> db \<Rightarrow> db" where
  "with_assignment now creator choreId assignedTo d =
     (case or_null assignedTo of
        None \<Rightarrow> d
      | Some uid \<Rightarrow>
          d\<lparr>chore_assignments := chore_assignments d @
               [\<lparr>a_id = next_id a_id (chore_assignments d), a_chore_id = choreId,
                 a_user_id = uid, a_assigned_by = creator, a_assigned_at = now,
                 a_accepted_at = None, a_declined_at = None, a_status = APending,
                 a_acceptance_deadline = None\<rparr>]\<rparr>)"

definition with_history :: "recurring \<Rightarrow> ident \<Rightarrow> ident option \<Rightarrow> db \<Rightarrow> db" where
  "with_history rc choreId assignedTo d =
     d\<lparr>recurring_chore_history := recurring_chore_history d @
          [\<lparr>h_id = next_id h_id (recurring_chore_history d), h_recurring_id = r_id rc,
            h_chore_id = choreId, h_due_date = r_next_due_date rc, h_status = HGenerated,
            h_assigned_to = assignedTo\<rparr>]\<rparr>"

definition moved_on :: "platform \<Rightarrow> timestamp \<Rightarrow> recurring \<Rightarrow> db \<Rightarrow> db" where
  "moved_on pf now rc d =
     update_recurring (r_id rc)
       (\<lambda>r. r\<lparr>r_next_due_date := advance_due_date pf (r_frequency rc) (r_next_due_date rc),
               r_last_generated := Some now\<rparr>) d"

definition generated_db ::
  "platform \<Rightarrow> timestamp \<Rightarrow> user option \<Rightarrow> recurring \<Rightarrow> ident option \<Rightarrow> db \<Rightarrow> db" where
  "generated_db pf now actor rc assignedTo d =
     (let creator = (case actor of None \<Rightarrow> r_created_by rc | Some u \<Rightarrow> u_id u);
          choreId = next_id c_id (chores d)
      in moved_on pf now rc
           (with_history rc choreId assignedTo
              (with_assignment now creator choreId assignedTo
                 (with_chore now creator rc assignedTo d))))"

text \<open>
  A family with two children and two daily templates due on 2024-01-08 at 09:00: taking
  out the trash in round-robin between the children, and feeding the cat, always the
  first child.  The job runs that day at 06:00 on a server in UTC.
\<close>

definition ex_sibling :: user where
  "ex_sibling = ex_child\<lparr>u_id := 8, u_email := ''sib@example.org''\<rparr>"

definition ex_template :: recurring where
  "ex_template = \<lparr>r_id = 1, r_family_id = 1, r_template_id = None, r_title = ''Trash'',
     r_description = None, r_reward_type = Money, r_reward_amount = 200,
     r_requires_photo = False, r_frequency = Daily, r_day_of_week = None,
     r_day_of_month = None, r_start_date = 19725, r_end_date = None,
     r_last_generated = None, r_next_due_date = 19730 * 86400000 + 9 * 3600000,
     r_auto_assign = True, r_assigned_to = None, r_rotation_type = RoundRobin,
     r_rotation_members = Some [7, 8], r_is_active = True, r_created_by = 1\<rparr>"

definition ex_template_cat :: recurring where
  "ex_template_cat =
     ex_template\<lparr>r_id := 2, r_title := ''Feed the cat'', r_assigned_to := Some 7,
                 r_rotation_type := RotNone, r_rotation_members := None\<rparr>"

definition ex_db_recurring :: db where
  "ex_db_recurring = \<lparr>families = [\<lparr>f_id = 1, f_family_code = ''FAM001''\<rparr>],
     users = [ex_parent, ex_child, ex_sibling], chores = [], chore_assignments = [],
     chore_submissions = [], completed_tasks = [],
     recurring_chores = [ex_template, ex_template_cat], recurring_chore_history = []\<rparr>"

definition ex_now :: timestamp where
  "ex_now = 19730 * 86400000 + 6 * 3600000"

definition ex_rnd :: "ident \<Rightarrow> nat" where
  "ex_rnd rid = 0"

text \<open>
  The same trash template with automatic assignment switched off; the template with a
  third member; and a history row of the trash template with a given assignee.
\<close>

definition ex_template_manual :: recurring where
  "ex_template_manual = ex_template\<lparr>r_auto_assign := False\<rparr>"

definition ex_db_manual :: db where
  "ex_db_manual = ex_db_recurring\<lparr>recurring_chores := [ex_template_manual]\<rparr>"

definition ex_template_three :: recurring where
  "ex_template_three = ex_template\<lparr>r_rotation_members := Some [7, 8, 9]\<rparr>"

definition ex_history :: "ident option \<Rightarrow> history" where
  "ex_history a = \<lparr>h_id = 1, h_recurring_id = 1, h_chore_id = 1,
     h_due_date = 19729 * 86400000 + 9 * 3600000, h_status = HGenerated, h_assigned_to = a\<rparr>"

text \<open>
  Failure patterns of a run: the statement with a given number fails, all others succeed.
\<close>

definition failing_at :: "nat \<Rightarrow> faults" where
  "failing_at k = (\<lambda>i. i = k)"

text \<open>
  The end-to-end scenario: the parent creates a chore with round-robin members 7 and 8,
  offers it to child 7, who accepts and submits it; the parent approves.  And the
  corrective edit: after the creation the parent patches \<^verbatim>\<open>status\<close> back to
  \<^verbatim>\<open>available\<close>.
\<close>

definition ex_create_body :: create_body where
  "ex_create_body = \<lparr>cb_title = Some ''Dishes'', cb_description = None,
     cb_reward_amount = Some 500, cb_reward_type = Some Money, cb_requires_photo = False,
     cb_acceptance_timer = None, cb_auto_assign = True, cb_assigned_to = None,
     cb_rotation_type = Some RoundRobin, cb_rotation_members = Some [7, 8]\<rparr>"

definition ex_scenario :: "(faults \<times> platform \<times> timestamp \<times> request) list" where
  "ex_scenario =
     [(no_faults, utc, 100, Create 0 ex_parent ex_create_body),
      (no_faults, utc, 200, Assign ex_parent 1 (Some 7)),
      (no_faults, utc, 300, Accept ex_child 1),
      (no_faults, utc, 400, Submit ex_child 1 None (Some ''done'')),
      (no_faults, utc, 500, Approve ex_parent 1)]"

definition ex_patch_status :: patch where
  "ex_patch_status = \<lparr>p_title = None, p_description = None, p_reward_amount = None,
     p_reward_type = None, p_requires_photo = None, p_acceptance_timer = None,
     p_status = Some Available\<rparr>"

definition ex_corrective_edit :: "(faults \<times> platform \<times> timestamp \<times> request) list" where
  "ex_corrective_edit =
     [(no_faults, utc, 100, Create 0 ex_parent ex_create_body),
      (no_faults, utc, 200, Update ex_parent 1 ex_patch_status)]"

text \<open>
  A database has grown out of another when its chores, assignments and history rows are
  the other's, in order, followed by further rows.
\<close>

definition grown :: "db \<Rightarrow> db \<Rightarrow> bool" where
  "grown d d' \<longleftrightarrow>
     (\<exists>cs. chores d' = chores d @ cs) \<and>
     (\<exists>as. chore_assignments d' = chore_assignments d @ as) \<and>
     (\<exists>hs. recurring_chore_history d' = recurring_chore_history d @ hs)"


section \<open>Gateway and query lemmas\<close>

lemma transaction_Inl: "transaction flt cb c = Inl x \<Longrightarrow> snd x = snd c"
  by (auto simp: transaction_def split: if_splits sum.splits prod.splits)

lemma filter_key_distinct:
  assumes "distinct (map key rows)" "r \<in> set rows"
  shows "filter (\<lambda>c. key c = key r \<and> P c) rows = (if P r then [r] else [])"
  using assms
proof (induction rows)
  case Nil then show ?case by simp
next
  case (Cons x xs)
  then show ?case by (auto simp: filter_empty_conv image_iff)
qed

lemma latest_by_Some:
  "xs \<noteq> [] \<Longrightarrow> \<exists>y. latest_by key xs = Some y \<and> y \<in> set xs \<and> (\<forall>x\<in>set xs. key x \<le> key y)"
proof (induction xs)
  case Nil then show ?case by simp
next
  case (Cons x xs)
  show ?case
  proof (cases xs)
    case Nil then show ?thesis by simp
  next
    case (Cons z zs)
    then have "xs \<noteq> []" by simp
    from Cons.IH[OF this] obtain y where "latest_by key xs = Some y" "y \<in> set xs" "\<forall>x\<in>set xs. key x \<le> key y" by blast
    then show ?thesis by auto
  qed
qed

section \<open>Approval\<close>


lemma credit_cases:
  "(case c_reward_type ch of
      Money \<Rightarrow> credit_earnings (c_current_reward ch) a
    | ScreenTime \<Rightarrow> credit_screen_time pf (c_current_reward ch) a) d =
   (if list_all (\<lambda>u. u_id u = a \<longrightarrow>
          (case c_reward_type ch of
             Money \<Rightarrow> decimal_10_2 (u_earnings u + c_current_reward ch)
           | ScreenTime \<Rightarrow>
               int_11 (to_integer pf (u_screen_time_earned u * 100 + c_current_reward ch))))
        (users d)
    then Some ((), d\<lparr>users :=
           map (\<lambda>u. if u_id u = a
                     then (case c_reward_type ch of
                             Money \<Rightarrow> u\<lparr>u_earnings := u_earnings u + c_current_reward ch\<rparr>
                           | ScreenTime \<Rightarrow>
                               u\<lparr>u_screen_time_earned :=
                                    to_integer pf (u_screen_time_earned u * 100 + c_current_reward ch)\<rparr>)
                     else u) (users d)\<rparr>)
    else None)"
  by (cases "c_reward_type ch") (simp_all add: credit_earnings_def credit_screen_time_def)

lemma approve_callback_cases:
  "approve_callback flt pf now p ch a sub (n, d) = Inl Internal \<or>
   (fits pf ch a d \<and>
    approve_callback flt pf now p ch a sub (n, d) = Inr ((), (n + 4, approved_db pf now p ch a sub d)))"
  by (cases "c_reward_type ch")
     (auto simp: approve_callback_def execute_def writing_def approved_db_def fits_def
        credit_earnings_def credit_screen_time_def approve_submission_def
        insert_completed_task_def complete_chore_def update_chore_def)

lemma approve_callback_no_faults:
  "approve_callback no_faults pf now p ch a sub (n, d) =
     (if fits pf ch a d then Inr ((), (n + 4, approved_db pf now p ch a sub d)) else Inl Internal)"
  by (cases "c_reward_type ch")
     (auto simp: approve_callback_def execute_def writing_def approved_db_def fits_def
        credit_earnings_def credit_screen_time_def approve_submission_def no_faults_def
        insert_completed_task_def complete_chore_def update_chore_def)

lemma approve_callback_unfit:
  "\<not> fits pf ch a d \<Longrightarrow> approve_callback flt pf now p ch a sub (n, d) = Inl Internal"
  using approve_callback_cases[of flt pf now p ch a sub n d] by auto


lemma select_chore_to_approve_Some:
  assumes "distinct (map c_id (chores d))" "ch \<in> set (chores d)" "c_family_id ch = fam"
    "c_status ch = PendingApproval" "c_assigned_to ch = Some a" "a \<in> u_id ` set (users d)"
  shows "select_chore_to_approve (c_id ch) fam d = Some (ch, a)"
proof -
  have "filter (\<lambda>c. c_id c = c_id ch \<and> c_family_id c = fam \<and> c_status c = PendingApproval) (chores d) = [ch]"
    using filter_key_distinct[OF assms(1,2), of "\<lambda>c. c_family_id c = fam \<and> c_status c = PendingApproval"] assms by simp
  moreover have "join_assignee d ch = Some (ch, a)"
    using assms by (auto simp: join_assignee_def list_ex_iff)
  ultimately show ?thesis
    by (simp add: select_chore_to_approve_def first_row_def List.map_filter_simps)
qed

lemma approve_result:
  assumes "u_role p = Parent"
    and "select_chore_to_approve cid (u_family_id p) db0 = Some (ch, a)"
    and "latest_submission (c_id ch) (Some a) db0 = Some sub"
  shows "approve flt pf now p cid db0 = (Inl Internal, db0) \<or>
         (fits pf ch a db0 \<and>
          approve flt pf now p cid db0 = (Inr (), approved_db pf now p ch a sub db0))"
    and "approve no_faults pf now p cid db0 =
           (if fits pf ch a db0 then (Inr (), approved_db pf now p ch a sub db0)
            else (Inl Internal, db0))"
proof -
  show "approve no_faults pf now p cid db0 =
           (if fits pf ch a db0 then (Inr (), approved_db pf now p ch a sub db0)
            else (Inl Internal, db0))"
    using assms
    by (simp add: approve_def reading_def query_def transaction_def approve_callback_no_faults
          throw_def)
       (simp add: no_faults_def)
  show "approve flt pf now p cid db0 = (Inl Internal, db0) \<or>
         (fits pf ch a db0 \<and>
          approve flt pf now p cid db0 = (Inr (), approved_db pf now p ch a sub db0))"
    using assms approve_callback_cases[of flt pf now p ch a sub "Suc (Suc (Suc 0))" db0]
    by (auto simp: approve_def reading_def query_def transaction_def throw_def split: if_splits)
qed

lemma approved_db_tables:
  "chore_submissions (approved_db pf now p ch a sub db0) =
        map (\<lambda>s. if s_id s = s_id sub
                  then s\<lparr>s_status := SApproved, s_reviewed_at := Some now,
                         s_reviewed_by := Some (u_id p)\<rparr>
                  else s) (chore_submissions db0)"
  "completed_tasks (approved_db pf now p ch a sub db0) =
     completed_tasks db0 @
       [\<lparr>t_id = next_id t_id (completed_tasks db0), t_chore_id = c_id ch, t_user_id = a,
         t_submission_id = Some (s_id sub), t_chore_title = c_title ch,
         t_chore_description = c_description ch, t_reward_type = c_reward_type ch,
         t_reward_earned = c_current_reward ch, t_completed_at = s_submitted_at sub,
         t_approved_by = Some (u_id p), t_approved_at = Some now,
         t_photo_path = s_photo_path sub, t_notes = s_notes sub\<rparr>]"
  "users (approved_db pf now p ch a sub db0) =
        map (\<lambda>u. if u_id u = a
                  then (case c_reward_type ch of
                          Money \<Rightarrow> u\<lparr>u_earnings := u_earnings u + c_current_reward ch\<rparr>
                        | ScreenTime \<Rightarrow>
                            u\<lparr>u_screen_time_earned :=
                                 to_integer pf (u_screen_time_earned u * 100 + c_current_reward ch)\<rparr>)
                  else u) (users db0)"
  "chores (approved_db pf now p ch a sub db0) =
        map (\<lambda>c. if c_id c = c_id ch
                  then c\<lparr>c_status := Completed, c_completed_at := Some now\<rparr>
                  else c) (chores db0)"
  "chore_assignments (approved_db pf now p ch a sub db0) = chore_assignments db0"
  "recurring_chores (approved_db pf now p ch a sub db0) = recurring_chores db0"
  "recurring_chore_history (approved_db pf now p ch a sub db0) = recurring_chore_history db0"
  "families (approved_db pf now p ch a sub db0) = families db0"
  by (simp_all add: approved_db_def complete_chore_def update_chore_def
        insert_completed_task_def approve_submission_def)

lemma whole_minutes_credit:
  assumes "c_reward_type ch = ScreenTime" "c_current_reward ch mod 100 = 0"
    "\<forall>k. to_integer pf (k * 100) = k"
  shows "users (approved_db pf now p ch a sub db0) =
        map (\<lambda>u. if u_id u = a
                  then u\<lparr>u_screen_time_earned :=
                           u_screen_time_earned u + c_current_reward ch div 100\<rparr>
                  else u) (users db0)"
proof -
  have "to_integer pf (x * 100 + c_current_reward ch) = x + c_current_reward ch div 100" for x
  proof -
    have "x * 100 + c_current_reward ch = (x + c_current_reward ch div 100) * 100"
      using assms(2) by (simp add: algebra_simps mod_eq_0_iff_dvd)
    then have "to_integer pf (x * 100 + c_current_reward ch) =
                 to_integer pf ((x + c_current_reward ch div 100) * 100)"
      by (rule arg_cong)
    also have "\<dots> = x + c_current_reward ch div 100"
      using assms(3) by blast
    finally show ?thesis .
  qed
  then show ?thesis
    using assms(1) by (simp add: approved_db_tables)
qed

lemma fractional_minutes_credit:
  assumes "(r :: int) mod 100 \<noteq> 0"
  shows "k * 100 \<noteq> x * 100 + r"
proof
  assume "k * 100 = x * 100 + r"
  then have "r = (k - x) * 100" by (simp add: algebra_simps)
  then have "r mod 100 = 0" by simp
  with assms show False by simp
qed

text \<open>
  Claim C1 (as amended).  Let a chore be in status \<^verbatim>\<open>pending_approval\<close>, assigned to an
  existing user, with at least one submission by that assignee, and let a parent of the
  chore's family call approve.  The four writes are: the latest submission of the assignee
  is marked approved (reviewed by the parent); exactly one row is appended to
  \<^verbatim>\<open>completed_tasks\<close>, with \<^verbatim>\<open>reward_earned\<close> equal to the chore's \<^verbatim>\<open>current_reward\<close>; the
  assignee's \<^verbatim>\<open>earnings\<close> grow by \<^verbatim>\<open>current_reward\<close> (money), or the assignee's
  \<^verbatim>\<open>screen_time_earned\<close> becomes the integer that the server stores for the sum of the old
  value and \<^verbatim>\<open>current_reward\<close> (screen time), and no other user's balance changes; the chore
  becomes \<^verbatim>\<open>completed\<close>.  Whatever statements fail, the call either succeeds with all four
  writes in place or answers 500 and leaves the database exactly as it was.  With no
  failing statement it succeeds if the new balance fits its column, and it never succeeds
  if it does not.  For a screen-time reward that is a whole number of minutes, on a server
  that stores whole numbers unchanged, the credit is exactly \<^verbatim>\<open>current_reward\<close>; for a
  reward that is not a whole number of minutes it is never exactly \<^verbatim>\<open>current_reward\<close>,
  whatever the server's rounding.
\<close>

theorem approve_all_or_nothing:
  assumes "u_role p = Parent"
    and "distinct (map c_id (chores db0))"
    and "ch \<in> set (chores db0)" and "c_family_id ch = u_family_id p"
    and "c_status ch = PendingApproval" and "c_assigned_to ch = Some a"
    and "a \<in> u_id ` set (users db0)"
    and "\<exists>s\<in>set (chore_submissions db0). s_chore_id s = c_id ch \<and> s_user_id s = a"
  shows "\<exists>sub db1.
      sub \<in> set (chore_submissions db0) \<and> s_chore_id sub = c_id ch \<and> s_user_id sub = a \<and>
      (\<forall>s\<in>set (chore_submissions db0).
          s_chore_id s = c_id ch \<and> s_user_id s = a \<longrightarrow> s_submitted_at s \<le> s_submitted_at sub) \<and>
      chore_submissions db1 =
        map (\<lambda>s. if s_id s = s_id sub
                  then s\<lparr>s_status := SApproved, s_reviewed_at := Some now,
                         s_reviewed_by := Some (u_id p)\<rparr>
                  else s) (chore_submissions db0) \<and>
      (\<exists>t. completed_tasks db1 = completed_tasks db0 @ [t] \<and> t_chore_id t = c_id ch \<and>
           t_user_id t = a \<and> t_submission_id t = Some (s_id sub) \<and>
           t_reward_earned t = c_current_reward ch) \<and>
      users db1 =
        map (\<lambda>u. if u_id u = a
                  then (case c_reward_type ch of
                          Money \<Rightarrow> u\<lparr>u_earnings := u_earnings u + c_current_reward ch\<rparr>
                        | ScreenTime \<Rightarrow>
                            u\<lparr>u_screen_time_earned :=
                                 to_integer pf (u_screen_time_earned u * 100 + c_current_reward ch)\<rparr>)
                  else u) (users db0) \<and>
      chores db1 =
        map (\<lambda>c. if c_id c = c_id ch
                  then c\<lparr>c_status := Completed, c_completed_at := Some now\<rparr>
                  else c) (chores db0) \<and>
      chore_assignments db1 = chore_assignments db0 \<and>
      recurring_chores db1 = recurring_chores db0 \<and>
      recurring_chore_history db1 = recurring_chore_history db0 \<and>
      families db1 = families db0 \<and>
      (\<forall>flt. approve flt pf now p (c_id ch) db0 = (Inr (), db1) \<or>
             approve flt pf now p (c_id ch) db0 = (Inl Internal, db0)) \<and>
      status_code Internal = 500 \<and>
      approve no_faults pf now p (c_id ch) db0 =
        (if \<forall>u\<in>set (users db0). u_id u = a \<longrightarrow>
              (case c_reward_type ch of
                 Money \<Rightarrow> decimal_10_2 (u_earnings u + c_current_reward ch)
               | ScreenTime \<Rightarrow>
                   int_11 (to_integer pf (u_screen_time_earned u * 100 + c_current_reward ch)))
         then (Inr (), db1) else (Inl Internal, db0)) \<and>
      (\<forall>flt. fst (approve flt pf now p (c_id ch) db0) = Inr () \<longrightarrow>
         (\<forall>u\<in>set (users db0). u_id u = a \<longrightarrow>
              (case c_reward_type ch of
                 Money \<Rightarrow> decimal_10_2 (u_earnings u + c_current_reward ch)
               | ScreenTime \<Rightarrow>
                   int_11 (to_integer pf (u_screen_time_earned u * 100 + c_current_reward ch))))) \<and>
      (c_reward_type ch = ScreenTime \<and> c_current_reward ch mod 100 = 0 \<and>
       (\<forall>k. to_integer pf (k * 100) = k) \<longrightarrow>
         users db1 =
           map (\<lambda>u. if u_id u = a
                     then u\<lparr>u_screen_time_earned :=
                              u_screen_time_earned u + c_current_reward ch div 100\<rparr>
                     else u) (users db0)) \<and>
      (c_reward_type ch = ScreenTime \<and> c_current_reward ch mod 100 \<noteq> 0 \<longrightarrow>
         (\<forall>u\<in>set (users db0). \<forall>u'\<in>set (users db1). u_id u = a \<and> u_id u' = a \<longrightarrow>
             u_screen_time_earned u' * 100 \<noteq>
               u_screen_time_earned u * 100 + c_current_reward ch))"
proof -
  have sel: "select_chore_to_approve (c_id ch) (u_family_id p) db0 = Some (ch, a)"
    using assms(2-7) by (intro select_chore_to_approve_Some) simp_all
  let ?rows = "filter (\<lambda>s. s_chore_id s = c_id ch \<and> s_user_id s = a) (chore_submissions db0)"
  have "?rows \<noteq> []"
    using assms(8) by (auto simp: filter_empty_conv)
  from latest_by_Some[OF this, of s_submitted_at]
  obtain sub where sub: "latest_submission (c_id ch) (Some a) db0 = Some sub" "sub \<in> set ?rows"
    "\<forall>x\<in>set ?rows. s_submitted_at x \<le> s_submitted_at sub"
    by (auto simp: latest_submission_def)
  let ?db1 = "approved_db pf now p ch a sub db0"
  let ?fits = "\<forall>u\<in>set (users db0). u_id u = a \<longrightarrow>
              (case c_reward_type ch of
                 Money \<Rightarrow> decimal_10_2 (u_earnings u + c_current_reward ch)
               | ScreenTime \<Rightarrow>
                   int_11 (to_integer pf (u_screen_time_earned u * 100 + c_current_reward ch)))"
  have fits: "fits pf ch a db0 \<longleftrightarrow> ?fits"
    by (simp add: fits_def list_all_iff)
  note res = approve_result[OF assms(1) sel sub(1)]
  have c1: "sub \<in> set (chore_submissions db0) \<and> s_chore_id sub = c_id ch \<and> s_user_id sub = a"
    using sub(2) by simp
  have c2: "\<forall>s\<in>set (chore_submissions db0).
          s_chore_id s = c_id ch \<and> s_user_id s = a \<longrightarrow> s_submitted_at s \<le> s_submitted_at sub"
    using sub(3) by simp
  have c3: "\<exists>t. completed_tasks ?db1 = completed_tasks db0 @ [t] \<and> t_chore_id t = c_id ch \<and>
           t_user_id t = a \<and> t_submission_id t = Some (s_id sub) \<and>
           t_reward_earned t = c_current_reward ch"
    by (simp add: approved_db_tables)
  have c4: "\<forall>flt. approve flt pf now p (c_id ch) db0 = (Inr (), ?db1) \<or>
             approve flt pf now p (c_id ch) db0 = (Inl Internal, db0)"
    using res(1) by blast
  have c5: "approve no_faults pf now p (c_id ch) db0 =
        (if ?fits then (Inr (), ?db1) else (Inl Internal, db0))"
    using res(2) fits by simp
  have c6: "\<forall>flt. fst (approve flt pf now p (c_id ch) db0) = Inr () \<longrightarrow> ?fits"
  proof (intro allI impI)
    fix flt assume ok: "fst (approve flt pf now p (c_id ch) db0) = Inr ()"
    from res(1)[of flt pf now] ok have "fits pf ch a db0" by auto
    then show ?fits using fits by simp
  qed
  have c7: "c_reward_type ch = ScreenTime \<and> c_current_reward ch mod 100 = 0 \<and>
       (\<forall>k. to_integer pf (k * 100) = k) \<longrightarrow>
         users ?db1 =
           map (\<lambda>u. if u_id u = a
                     then u\<lparr>u_screen_time_earned :=
                              u_screen_time_earned u + c_current_reward ch div 100\<rparr>
                     else u) (users db0)"
  proof (intro impI)
    assume h: "c_reward_type ch = ScreenTime \<and> c_current_reward ch mod 100 = 0 \<and>
       (\<forall>k. to_integer pf (k * 100) = k)"
    then have 1: "c_reward_type ch = ScreenTime" and 2: "c_current_reward ch mod 100 = 0"
      and 3: "\<forall>k. to_integer pf (k * 100) = k"
      by simp_all
    show "users ?db1 =
           map (\<lambda>u. if u_id u = a
                     then u\<lparr>u_screen_time_earned :=
                              u_screen_time_earned u + c_current_reward ch div 100\<rparr>
                     else u) (users db0)"
      by (rule whole_minutes_credit[OF 1 2 3])
  qed
  have c8: "c_reward_type ch = ScreenTime \<and> c_current_reward ch mod 100 \<noteq> 0 \<longrightarrow>
         (\<forall>u\<in>set (users db0). \<forall>u'\<in>set (users ?db1). u_id u = a \<and> u_id u' = a \<longrightarrow>
             u_screen_time_earned u' * 100 \<noteq>
               u_screen_time_earned u * 100 + c_current_reward ch)"
    using fractional_minutes_credit[of "c_current_reward ch"] by blast
  show ?thesis
    apply (rule exI[of _ sub], rule exI[of _ ?db1])
    apply (intro conjI)
    subgoal using c1 by simp
    subgoal using c1 by simp
    subgoal using c1 by simp
    subgoal by (rule c2)
    subgoal by (rule approved_db_tables)
    subgoal by (rule c3)
    subgoal by (rule approved_db_tables)
    subgoal by (rule approved_db_tables)
    subgoal by (rule approved_db_tables)
    subgoal by (rule approved_db_tables)
    subgoal by (rule approved_db_tables)
    subgoal by (rule approved_db_tables)
    subgoal by (rule c4)
    subgoal by simp
    subgoal by (rule c5)
    subgoal by (rule c6)
    subgoal by (rule c7)
    subgoal by (rule c8)
    done
qed

text \<open>
  The theorem at the reference family: the child's earnings go from 10.00 to 15.00, and a
  screen-time reward of a full hour takes the child's screen time from 30 to 90 minutes.
\<close>

theorem approve_all_or_nothing_witness:
  "(\<exists>db1. approve no_faults utc 1000 ex_parent 1 ex_db = (Inr (), db1) \<and>
     map u_earnings (users db1) = [0, 1500] \<and>
     map t_reward_earned (completed_tasks db1) = [500] \<and>
     map c_status (chores db1) = [Completed] \<and>
     map s_status (chore_submissions db1) = [SApproved]) \<and>
   (\<exists>db2. approve no_faults utc 1000 ex_parent 5 ex_db_hour = (Inr (), db2) \<and>
     map u_screen_time_earned (users db2) = [0, 90] \<and>
     map t_reward_earned (completed_tasks db2) = [6000])"
proof -
  have whole: "\<forall>k. to_integer utc (k * 100) = k"
    by (simp add: utc_def fixed_zone_def nearest_integer_def)
  have 1: "\<exists>db1. approve no_faults utc 1000 ex_parent 1 ex_db = (Inr (), db1) \<and>
     map u_earnings (users db1) = [0, 1500] \<and>
     map t_reward_earned (completed_tasks db1) = [500] \<and>
     map c_status (chores db1) = [Completed] \<and>
     map s_status (chore_submissions db1) = [SApproved]"
    using approve_all_or_nothing[where p = ex_parent and ?db0.0 = ex_db and ch = ex_chore
        and a = 7 and pf = utc and now = 1000]
    by (auto simp: ex_db_def ex_parent_def ex_child_def ex_chore_def ex_submission_def
          decimal_10_2_def)
  have 2: "\<exists>db2. approve no_faults utc 1000 ex_parent 5 ex_db_hour = (Inr (), db2) \<and>
     map u_screen_time_earned (users db2) = [0, 90] \<and>
     map t_reward_earned (completed_tasks db2) = [6000]"
    using approve_all_or_nothing[where p = ex_parent and ?db0.0 = ex_db_hour
        and ch = ex_chore_hour and a = 7 and pf = utc and now = 1000] whole
    by (auto simp: ex_db_hour_def ex_chore_hour_def ex_db_def ex_parent_def ex_child_def
          ex_chore_def ex_submission_def int_11_def)
  from 1 2 show ?thesis by blast
qed

text \<open>
  The claim as stated fails for a screen-time reward that is not a whole number of minutes:
  \<^verbatim>\<open>screen_time_earned\<close> is an integer column, so a reward of 2.25 minutes credits 2 minutes
  while the ledger row records 2.25.
\<close>

theorem approve_screen_time_counterexample:
  "fst (approve no_faults utc 1000 ex_parent 2 ex_db_minutes) = Inr () \<and>
   map t_reward_earned (completed_tasks (snd (approve no_faults utc 1000 ex_parent 2 ex_db_minutes)))
     = [225] \<and>
   map u_screen_time_earned (users (snd (approve no_faults utc 1000 ex_parent 2 ex_db_minutes)))
     = [0, 32] \<and>
   map u_screen_time_earned (users ex_db_minutes) = [0, 30] \<and>
   c_current_reward ex_chore_minutes = 225 \<and>
   (32 - 30) * 100 \<noteq> (225 :: int)"
  by (simp add: approve_def reading_def writing_def query_def transaction_def approve_callback_def
        execute_def no_faults_def update_chore_def select_chore_to_approve_def join_assignee_def first_row_def
        List.map_filter_simps latest_submission_def approve_submission_def
        insert_completed_task_def credit_screen_time_def complete_chore_def nearest_integer_def
        utc_def fixed_zone_def int_11_def
        ex_db_minutes_def ex_db_def ex_chore_minutes_def ex_chore_def ex_parent_def ex_child_def
        ex_submission_def)


section \<open>Decline, accept and delete\<close>

lemma find_key_distinct:
  assumes "distinct (map key rows)" "r \<in> set rows" "P r"
  shows "find (\<lambda>c. key c = key r \<and> P c) rows = Some r"
  using assms
proof (induction rows)
  case Nil then show ?case by simp
next
  case (Cons x xs)
  then show ?case by (auto simp: image_iff)
qed

lemma select_family_chore_Some:
  "distinct (map c_id (chores d)) \<Longrightarrow> ch \<in> set (chores d) \<Longrightarrow> c_family_id ch = fam
     \<Longrightarrow> select_family_chore (c_id ch) fam d = Some ch"
  unfolding select_family_chore_def
  using find_key_distinct[of c_id "chores d" ch "\<lambda>c. c_family_id c = fam"] by simp

lemma select_own_chore_Some:
  "distinct (map c_id (chores d)) \<Longrightarrow> ch \<in> set (chores d) \<Longrightarrow> c_assigned_to ch = Some uid
     \<Longrightarrow> c_status ch = st \<Longrightarrow> select_own_chore (c_id ch) uid st d = Some ch"
  unfolding select_own_chore_def
  using find_key_distinct[of c_id "chores d" ch "\<lambda>c. c_assigned_to c = Some uid \<and> c_status c = st"]
  by simp

lemma select_own_chore_None:
  "\<forall>c\<in>set (chores d). c_id c = cid \<longrightarrow> c_status c \<noteq> st \<Longrightarrow> select_own_chore cid uid st d = None"
  by (auto simp: select_own_chore_def find_None_iff)

lemma decline_result:
  assumes "select_own_chore cid (u_id u) PendingAcceptance d = Some ch"
  shows "(decline flt now u cid d = (Inr (), declined_db now (c_id ch) (u_id u) d) \<or>
          decline flt now u cid d = (Inl Internal, d)) \<and>
         decline no_faults now u cid d = (Inr (), declined_db now (c_id ch) (u_id u) d)"
  using assms
  by (auto simp: decline_def query_def reading_def writing_def transaction_def decline_callback_def
        execute_def throw_def declined_db_def no_faults_def)

text \<open>
  Claim C8.  Let a chore be in status \<^verbatim>\<open>pending_acceptance\<close> and assigned to the caller.
  Decline (all-or-nothing under failing statements, and successful without them) turns
  every pending assignment row of this chore and user to \<^verbatim>\<open>declined\<close>, adds no
  assignment row (nobody is assigned in the caller's place), and reverts the chore to
  \<^verbatim>\<open>available\<close> with \<^verbatim>\<open>assigned_to\<close> and \<^verbatim>\<open>assigned_at\<close> cleared.  A following accept
  of the same chore by the same user is answered 404 (NotFound) and changes nothing.
\<close>

theorem decline_then_accept:
  assumes "distinct (map c_id (chores d))"
    and "ch \<in> set (chores d)"
    and "c_status ch = PendingAcceptance"
    and "c_assigned_to ch = Some (u_id u)"
  shows "\<exists>d1.
      decline no_faults now u (c_id ch) d = (Inr (), d1) \<and>
      (\<forall>flt. decline flt now u (c_id ch) d = (Inr (), d1) \<or>
             decline flt now u (c_id ch) d = (Inl Internal, d)) \<and>
      chores d1 =
        map (\<lambda>c. if c_id c = c_id ch
                  then c\<lparr>c_status := Available, c_assigned_to := None, c_assigned_at := None\<rparr>
                  else c) (chores d) \<and>
      chore_assignments d1 =
        map (\<lambda>a. if a_chore_id a = c_id ch \<and> a_user_id a = u_id u \<and> a_status a = APending
                  then a\<lparr>a_status := ADeclined, a_declined_at := Some now\<rparr>
                  else a) (chore_assignments d) \<and>
      accept no_faults now' u (c_id ch) d1 = (Inl NotFound, d1) \<and>
      status_code NotFound = 404 \<and>
      (\<forall>flt. accept flt now' u (c_id ch) d1 = (Inl NotFound, d1) \<or>
             accept flt now' u (c_id ch) d1 = (Inl Internal, d1))"
proof -
  let ?d1 = "declined_db now (c_id ch) (u_id u) d"
  have sel: "select_own_chore (c_id ch) (u_id u) PendingAcceptance d = Some ch"
    using assms by (intro select_own_chore_Some) simp_all
  note dec = decline_result[OF sel]
  have none: "select_own_chore (c_id ch) (u_id u) PendingAcceptance ?d1 = None"
    by (intro select_own_chore_None) (auto simp: declined_db_def update_chore_def answer_assignments_def)
  have acc: "accept flt now' u (c_id ch) ?d1 = (Inl NotFound, ?d1) \<or>
             accept flt now' u (c_id ch) ?d1 = (Inl Internal, ?d1)" for flt
    using none by (auto simp: accept_def query_def reading_def throw_def)
  have acc0: "accept no_faults now' u (c_id ch) ?d1 = (Inl NotFound, ?d1)"
    using none by (auto simp: accept_def query_def reading_def throw_def no_faults_def)
  have tabs: "chores ?d1 =
        map (\<lambda>c. if c_id c = c_id ch
                  then c\<lparr>c_status := Available, c_assigned_to := None, c_assigned_at := None\<rparr>
                  else c) (chores d)"
    "chore_assignments ?d1 =
        map (\<lambda>a. if a_chore_id a = c_id ch \<and> a_user_id a = u_id u \<and> a_status a = APending
                  then a\<lparr>a_status := ADeclined, a_declined_at := Some now\<rparr>
                  else a) (chore_assignments d)"
    by (simp_all add: declined_db_def update_chore_def answer_assignments_def)
  show ?thesis
    using dec acc acc0 tabs by (intro exI[of _ ?d1]) auto
qed

text \<open>The theorem on the chore offered to the child of the reference family.\<close>

theorem decline_then_accept_witness:
  "\<exists>d1. decline no_faults 500 ex_child 3 ex_db_offered = (Inr (), d1) \<and>
     map c_status (chores d1) = [Available] \<and>
     map c_assigned_to (chores d1) = [None] \<and>
     map a_status (chore_assignments d1) = [ADeclined] \<and>
     accept no_faults 600 ex_child 3 d1 = (Inl NotFound, d1)"
  using decline_then_accept[of ex_db_offered ex_chore_offered ex_child 500 600]
  by (auto simp: ex_db_offered_def ex_chore_offered_def ex_db_def ex_chore_def ex_child_def)

text \<open>
  Claim C9.  For a chore of the caller's family, a parent's delete succeeds when the status
  is not \<^verbatim>\<open>completed\<close>, and the chore row is gone.  When the status is \<^verbatim>\<open>completed\<close> the
  call is answered 400 (ValidationError), and under every pattern of failing statements
  the database, with the chore row and its \<^verbatim>\<open>completed_tasks\<close> row, stays as it was.
\<close>

theorem delete_chore_guard:
  assumes "u_role p = Parent"
    and "distinct (map c_id (chores d))"
    and "ch \<in> set (chores d)"
    and "c_family_id ch = u_family_id p"
  shows "(c_status ch \<noteq> Completed \<longrightarrow>
            delete_chore no_faults p (c_id ch) d = (Inr (), delete_chore_row (c_id ch) d) \<and>
            c_id ch \<notin> c_id ` set (chores (delete_chore_row (c_id ch) d))) \<and>
         (c_status ch = Completed \<longrightarrow>
            delete_chore no_faults p (c_id ch) d = (Inl ValidationError, d) \<and>
            status_code ValidationError = 400 \<and>
            (\<forall>flt. snd (delete_chore flt p (c_id ch) d) = d))"
  using assms select_family_chore_Some[OF assms(2,3,4)]
  by (auto simp: delete_chore_def query_def reading_def writing_def no_faults_def throw_def
        delete_chore_row_def)

text \<open>The theorem on a chore pending approval and on a completed one.\<close>

theorem delete_chore_guard_witness:
  "delete_chore no_faults ex_parent 1 ex_db = (Inr (), delete_chore_row 1 ex_db) \<and>
   chores (delete_chore_row 1 ex_db) = [] \<and>
   delete_chore no_faults ex_parent 4 ex_db_done = (Inl ValidationError, ex_db_done) \<and>
   map t_reward_earned (completed_tasks ex_db_done) = [500]"
  using delete_chore_guard[of ex_parent ex_db ex_chore]
    delete_chore_guard[of ex_parent ex_db_done ex_chore_done]
  by (auto simp: ex_db_done_def ex_chore_done_def ex_db_def ex_chore_def ex_parent_def
        delete_chore_row_def)


section \<open>Account lockout\<close>

lemma find_map_invariant:
  assumes "\<And>x. P (g x) = P x"
  shows "find P (map g xs) = map_option g (find P xs)"
  using assms by (induction xs) auto

lemma select_login_user_update:
  assumes "select_login_user code email d = Some usr"
    and "\<And>x. u_family_id (f x) = u_family_id x \<and> u_email (f x) = u_email x \<and>
              u_is_active (f x) = u_is_active x"
  shows "select_login_user code email (update_user (u_id usr) f d) = Some (f usr)"
proof -
  let ?g = "\<lambda>u. if u_id u = u_id usr then f u else u"
  let ?P = "\<lambda>u. list_ex (\<lambda>fa. f_id fa = u_family_id u \<and> f_family_code fa = code) (families d)
               \<and> u_email u = email \<and> u_is_active u"
  have "find ?P (map ?g (users d)) = map_option ?g (find ?P (users d))"
    by (rule find_map_invariant) (simp add: assms(2))
  then show ?thesis
    using assms(1) by (simp add: select_login_user_def update_user_def)
qed

lemma login_invalid:
  "loginValidation lib body = None \<Longrightarrow> login flt lib pf now body d = (Inl ValidationError, d)"
  by (simp add: login_def)

lemma login_locked:
  assumes "loginValidation lib body = Some b"
    and "select_login_user (lb_familyCode b) (lb_email b) d = Some usr"
    and "u_locked_until usr = Some t" and "now < t"
  shows "login flt lib pf now body d = (Inl Locked, d) \<or>
         login flt lib pf now body d = (Inl Internal, d)"
    and "login no_faults lib pf now body d = (Inl Locked, d)"
  using assms
  by (auto simp: login_def query_def reading_def no_faults_def locked_def throw_def)

lemma login_mismatch:
  assumes "loginValidation lib body = Some b"
    and "select_login_user (lb_familyCode b) (lb_email b) d = Some usr"
    and "u_locked_until usr = None \<or> (\<exists>t. u_locked_until usr = Some t \<and> t \<le> now)"
    and "\<not> bcrypt_compare lib (lb_password b) (u_password_hash usr)"
    and "int_11 (u_login_attempts usr + 1)"
  shows "login no_faults lib pf now body d =
           (Inl Unauthenticated,
            update_user (u_id usr)
              (\<lambda>u. u\<lparr>u_login_attempts := u_login_attempts usr + 1,
                      u_locked_until :=
                        (if 5 \<le> u_login_attempts usr + 1
                         then Some (to_timestamp pf (now + 15 * 60 * 1000)) else None)\<rparr>) d)"
  using assms
  by (auto simp: login_def query_def reading_def no_faults_def locked_def record_failure_def
        Let_def)

lemma login_match:
  assumes "loginValidation lib body = Some b"
    and "select_login_user (lb_familyCode b) (lb_email b) d = Some usr"
    and "u_locked_until usr = None \<or> (\<exists>t. u_locked_until usr = Some t \<and> t \<le> now)"
    and "bcrypt_compare lib (lb_password b) (u_password_hash usr)"
  shows "login no_faults lib pf now body d =
           (Inr usr,
            update_user (u_id usr) (\<lambda>u. u\<lparr>u_login_attempts := 0, u_locked_until := None\<rparr>) d)"
  using assms
  by (auto simp: login_def query_def reading_def writing_def no_faults_def locked_def)

lemma logins_mismatches:
  assumes "select_login_user code email d = Some usr"
    and "u_locked_until usr = None"
    and "0 \<le> u_login_attempts usr"
    and "u_login_attempts usr + int (length atts) \<le> 4"
    and "\<forall>x\<in>set atts. \<exists>b. loginValidation lib (snd x) = Some b \<and> lb_familyCode b = code \<and>
            lb_email b = email \<and> \<not> bcrypt_compare lib (lb_password b) (u_password_hash usr)"
  shows "select_login_user code email (logins lib pf atts d) =
           Some (usr\<lparr>u_login_attempts := u_login_attempts usr + int (length atts)\<rparr>)"
  using assms
proof (induction atts arbitrary: d usr)
  case Nil
  then show ?case by simp
next
  case (Cons x atts)
  obtain now body where x: "x = (now, body)" by (cases x)
  from Cons.prems(5) x obtain b where b: "loginValidation lib body = Some b"
    "lb_familyCode b = code" "lb_email b = email"
    "\<not> bcrypt_compare lib (lb_password b) (u_password_hash usr)"
    by auto
  let ?f = "\<lambda>u. u\<lparr>u_login_attempts := u_login_attempts usr + 1,
                      u_locked_until :=
                        (if 5 \<le> u_login_attempts usr + 1
                         then Some (to_timestamp pf (now + 15 * 60 * 1000)) else None)\<rparr>"
  let ?d1 = "update_user (u_id usr) ?f d"
  have small: "u_login_attempts usr + 1 \<le> 4"
    using Cons.prems(4) by simp
  have i11: "int_11 (u_login_attempts usr + 1)"
    using small Cons.prems(3) by (simp add: int_11_def)
  have step: "login no_faults lib pf now body d = (Inl Unauthenticated, ?d1)"
    using login_mismatch[OF b(1) _ _ b(4) i11, of d now pf] Cons.prems(1,2) b(2,3) by simp
  have sel1: "select_login_user code email ?d1 = Some (?f usr)"
    by (rule select_login_user_update[OF Cons.prems(1)]) simp
  have f_usr: "?f usr = usr\<lparr>u_login_attempts := u_login_attempts usr + 1\<rparr>"
    using small Cons.prems(2) by simp
  have "select_login_user code email (logins lib pf atts ?d1) =
           Some ((?f usr)\<lparr>u_login_attempts := u_login_attempts (?f usr) + int (length atts)\<rparr>)"
  proof (rule Cons.IH[OF sel1])
    show "u_locked_until (?f usr) = None" using small by simp
    show "0 \<le> u_login_attempts (?f usr)" using Cons.prems(3) by simp
    show "u_login_attempts (?f usr) + int (length atts) \<le> 4" using Cons.prems(4) by simp
    show "\<forall>x\<in>set atts. \<exists>b. loginValidation lib (snd x) = Some b \<and> lb_familyCode b = code \<and>
            lb_email b = email \<and> \<not> bcrypt_compare lib (lb_password b) (u_password_hash (?f usr))"
      using Cons.prems(5) by simp
  qed
  then show ?case
    unfolding x using step small Cons.prems(2) by (simp add: algebra_simps)
qed

lemma logins_append:
  "logins lib pf (xs @ ys) d = logins lib pf ys (logins lib pf xs d)"
  by (induction xs arbitrary: d) auto

lemma five_mismatches:
  assumes sel: "select_login_user code email d = Some usr"
    and zero: "u_login_attempts usr = 0" and free: "u_locked_until usr = None"
    and len: "length atts = 5"
    and bad: "\<forall>x\<in>set atts. \<exists>b. loginValidation lib (snd x) = Some b \<and> lb_familyCode b = code \<and>
            lb_email b = email \<and> \<not> bcrypt_compare lib (lb_password b) (u_password_hash usr)"
  shows "select_login_user code email (logins lib pf atts d) =
           Some (usr\<lparr>u_login_attempts := 5,
                     u_locked_until := Some (to_timestamp pf (fst (last atts) + 15 * 60 * 1000))\<rparr>)"
proof -
  from len have ne: "atts \<noteq> []" by auto
  define front where "front = butlast atts"
  obtain now body where l: "last atts = (now, body)" by (cases "last atts")
  have atts: "atts = front @ [(now, body)]"
    using ne l front_def by (metis append_butlast_last_id)
  have lf: "length front = 4"
    using len atts by simp
  let ?usr4 = "usr\<lparr>u_login_attempts := u_login_attempts usr + int (length front)\<rparr>"
  have sel4: "select_login_user code email (logins lib pf front d) = Some ?usr4"
  proof (rule logins_mismatches[OF sel free])
    show "0 \<le> u_login_attempts usr" using zero by simp
    show "u_login_attempts usr + int (length front) \<le> 4" using zero lf by simp
    show "\<forall>x\<in>set front. \<exists>b. loginValidation lib (snd x) = Some b \<and> lb_familyCode b = code \<and>
            lb_email b = email \<and> \<not> bcrypt_compare lib (lb_password b) (u_password_hash usr)"
      using bad atts by (metis Un_iff set_append)
  qed
  from bad atts obtain b where b: "loginValidation lib body = Some b"
    "lb_familyCode b = code" "lb_email b = email"
    "\<not> bcrypt_compare lib (lb_password b) (u_password_hash usr)"
    by (metis in_set_conv_decomp snd_conv)
  let ?d4 = "logins lib pf front d"
  let ?f = "\<lambda>u. u\<lparr>u_login_attempts := u_login_attempts ?usr4 + 1,
                      u_locked_until :=
                        (if 5 \<le> u_login_attempts ?usr4 + 1
                         then Some (to_timestamp pf (now + 15 * 60 * 1000)) else None)\<rparr>"
  have i11: "int_11 (u_login_attempts ?usr4 + 1)"
    using zero lf by (simp add: int_11_def)
  have step: "login no_faults lib pf now body ?d4 =
                (Inl Unauthenticated, update_user (u_id ?usr4) ?f ?d4)"
  proof (rule login_mismatch[OF b(1) _ _ _ i11])
    show "select_login_user (lb_familyCode b) (lb_email b) ?d4 = Some ?usr4"
      using sel4 b(2,3) by simp
    show "u_locked_until ?usr4 = None \<or> (\<exists>t. u_locked_until ?usr4 = Some t \<and> t \<le> now)"
      using free by simp
    show "\<not> bcrypt_compare lib (lb_password b) (u_password_hash ?usr4)"
      using b(4) by simp
  qed
  have sel5: "select_login_user code email (update_user (u_id ?usr4) ?f ?d4) = Some (?f ?usr4)"
    by (rule select_login_user_update[OF sel4]) simp
  have "logins lib pf atts d = update_user (u_id ?usr4) ?f ?d4"
    unfolding atts logins_append using step by simp
  then show ?thesis
    using sel5 zero lf l by simp
qed

lemma authRateLimit_admits:
  "fst (authRateLimit m w now ip lim) \<longleftrightarrow>
     (case lim ip of None \<Rightarrow> True | Some (count, resetTime) \<Rightarrow> resetTime < now \<or> count < m)"
  by (auto simp: authRateLimit_def split: option.splits)

lemma authRateLimit_rejects:
  "\<not> fst (authRateLimit m w now ip lim) \<Longrightarrow> snd (authRateLimit m w now ip lim) = lim"
  by (auto simp: authRateLimit_def split: option.splits if_splits)

lemma login_route_eq:
  "login_route flt lib pf now ip body (lim, d) =
     (if fst (authRateLimit 20 (15 * 60 * 1000) now ip lim)
      then (fst (login flt lib pf now body d),
            snd (authRateLimit 20 (15 * 60 * 1000) now ip lim),
            snd (login flt lib pf now body d))
      else (Inl TooManyRequests, lim, d))"
proof (cases "authRateLimit 20 (15 * 60 * 1000) now ip lim")
  case (Pair ok lim')
  show ?thesis
  proof (cases ok)
    case True
    then show ?thesis using Pair by (simp add: login_route_def split: prod.splits)
  next
    case False
    then have "lim' = lim"
      using authRateLimit_rejects[of 20 "15 * 60 * 1000" now ip lim] Pair by simp
    then show ?thesis using Pair False by (simp add: login_route_def)
  qed
qed

text \<open>
  Claim C10 (as amended).  Take a login request whose body passes validation (a family
  code of 6 to 10 characters once trimmed, an email that \<^verbatim>\<open>isEmail\<close> accepts, a password of
  at least 6 characters) and that names an existing active account, with no statement
  failing.  While the account's \<^verbatim>\<open>locked_until\<close> lies in the future the request is answered
  423 and nothing is written, whatever the password (under failing statements: 423 or 500,
  and nothing is written).  Otherwise a password mismatch is answered 401 and stores the
  attempt counter increased by one and, when the new counter is 5 or more, a
  \<^verbatim>\<open>locked_until\<close> of 15 minutes after now as the \<^verbatim>\<open>timestamp\<close> column stores it; every valid
  request for the account before that instant is then answered 423 without a write, also
  with the correct password, and from that instant on the correct password logs in; and a
  correct password logs in, resets the counter to 0 and clears \<^verbatim>\<open>locked_until\<close>.  Five
  mismatches in a row on an account whose counter is 0 leave the counter at 5 and the
  account locked until 15 minutes after the fifth.  A request whose body fails validation
  is answered 400, locked account or not, and writes nothing; a request that the route's
  rate limiter does not admit (20 requests of the address within the window already) is
  answered 429 and reaches neither validation nor handler.
\<close>

theorem login_lockout:
  assumes "loginValidation lib body = Some b"
    and "select_login_user (lb_familyCode b) (lb_email b) d = Some usr"
    and "loginValidation lib body' = Some b'"
    and "lb_familyCode b' = lb_familyCode b" and "lb_email b' = lb_email b"
  shows "(\<forall>t. u_locked_until usr = Some t \<and> now < t \<longrightarrow>
            login no_faults lib pf now body d = (Inl Locked, d) \<and>
            (\<forall>flt. login flt lib pf now body d = (Inl Locked, d) \<or>
                   login flt lib pf now body d = (Inl Internal, d))) \<and>
         status_code Locked = 423 \<and>
         ((u_locked_until usr = None \<or> (\<exists>t. u_locked_until usr = Some t \<and> t \<le> now)) \<and>
          \<not> bcrypt_compare lib (lb_password b) (u_password_hash usr) \<and>
          int_11 (u_login_attempts usr + 1) \<longrightarrow>
            (\<forall>d1. d1 = update_user (u_id usr)
                          (\<lambda>u. u\<lparr>u_login_attempts := u_login_attempts usr + 1,
                                  u_locked_until :=
                                    (if 5 \<le> u_login_attempts usr + 1
                                     then Some (to_timestamp pf (now + 15 * 60 * 1000))
                                     else None)\<rparr>) d \<longrightarrow>
               login no_faults lib pf now body d = (Inl Unauthenticated, d1) \<and>
               (5 \<le> u_login_attempts usr + 1 \<longrightarrow>
                  (\<forall>now'. now' < to_timestamp pf (now + 15 * 60 * 1000) \<longrightarrow>
                     login no_faults lib pf now' body' d1 = (Inl Locked, d1)) \<and>
                  (\<forall>now'. to_timestamp pf (now + 15 * 60 * 1000) \<le> now' \<and>
                          bcrypt_compare lib (lb_password b') (u_password_hash usr) \<longrightarrow>
                     (\<exists>usr1. login no_faults lib pf now' body' d1 =
                        (Inr usr1,
                         update_user (u_id usr)
                           (\<lambda>u. u\<lparr>u_login_attempts := 0, u_locked_until := None\<rparr>) d1)))))) \<and>
         status_code Unauthenticated = 401 \<and>
         ((u_locked_until usr = None \<or> (\<exists>t. u_locked_until usr = Some t \<and> t \<le> now)) \<and>
          bcrypt_compare lib (lb_password b) (u_password_hash usr) \<longrightarrow>
            login no_faults lib pf now body d =
              (Inr usr,
               update_user (u_id usr)
                 (\<lambda>u. u\<lparr>u_login_attempts := 0, u_locked_until := None\<rparr>) d)) \<and>
         (\<forall>atts. u_login_attempts usr = 0 \<and> u_locked_until usr = None \<and> length atts = 5 \<and>
            (\<forall>x\<in>set atts. \<exists>bx. loginValidation lib (snd x) = Some bx \<and>
                lb_familyCode bx = lb_familyCode b \<and> lb_email bx = lb_email b \<and>
                \<not> bcrypt_compare lib (lb_password bx) (u_password_hash usr)) \<longrightarrow>
            select_login_user (lb_familyCode b) (lb_email b) (logins lib pf atts d) =
              Some (usr\<lparr>u_login_attempts := 5,
                        u_locked_until :=
                          Some (to_timestamp pf (fst (last atts) + 15 * 60 * 1000))\<rparr>)) \<and>
         (\<forall>flt body0. loginValidation lib body0 = None \<longrightarrow>
            login flt lib pf now body0 d = (Inl ValidationError, d)) \<and>
         status_code ValidationError = 400 \<and>
         (\<forall>flt ip lim.
            login_route flt lib pf now ip body (lim, d) =
              (if (case lim ip of None \<Rightarrow> True
                   | Some (count, resetTime) \<Rightarrow> resetTime < now \<or> count < 20)
               then (fst (login flt lib pf now body d),
                     snd (authRateLimit 20 (15 * 60 * 1000) now ip lim),
                     snd (login flt lib pf now body d))
               else (Inl TooManyRequests, lim, d))) \<and>
         status_code TooManyRequests = 429"
proof -
  let ?f = "\<lambda>u. u\<lparr>u_login_attempts := u_login_attempts usr + 1,
                    u_locked_until :=
                      (if 5 \<le> u_login_attempts usr + 1
                       then Some (to_timestamp pf (now + 15 * 60 * 1000)) else None)\<rparr>"
  let ?d1 = "update_user (u_id usr) ?f d"
  let ?free = "u_locked_until usr = None \<or> (\<exists>t. u_locked_until usr = Some t \<and> t \<le> now)"
  have c1: "\<forall>t. u_locked_until usr = Some t \<and> now < t \<longrightarrow>
            login no_faults lib pf now body d = (Inl Locked, d) \<and>
            (\<forall>flt. login flt lib pf now body d = (Inl Locked, d) \<or>
                   login flt lib pf now body d = (Inl Internal, d))"
    using login_locked[OF assms(1,2)] by blast
  have sel1: "select_login_user (lb_familyCode b') (lb_email b') ?d1 = Some (?f usr)"
    unfolding assms(4,5) by (rule select_login_user_update[OF assms(2)]) simp
  have lock: "login no_faults lib pf now' body' ?d1 = (Inl Locked, ?d1)"
    if "5 \<le> u_login_attempts usr + 1" "now' < to_timestamp pf (now + 15 * 60 * 1000)" for now'
    by (rule login_locked(2)[OF assms(3) sel1, of "to_timestamp pf (now + 15 * 60 * 1000)"])
       (use that in simp_all)
  have expired: "\<exists>usr1. login no_faults lib pf now' body' ?d1 =
                        (Inr usr1,
                         update_user (u_id usr)
                           (\<lambda>u. u\<lparr>u_login_attempts := 0, u_locked_until := None\<rparr>) ?d1)"
    if "5 \<le> u_login_attempts usr + 1" "to_timestamp pf (now + 15 * 60 * 1000) \<le> now'"
       "bcrypt_compare lib (lb_password b') (u_password_hash usr)" for now'
  proof -
    have "login no_faults lib pf now' body' ?d1 =
           (Inr (?f usr),
            update_user (u_id (?f usr)) (\<lambda>u. u\<lparr>u_login_attempts := 0, u_locked_until := None\<rparr>) ?d1)"
      by (rule login_match[OF assms(3) sel1]) (use that in simp_all)
    then show ?thesis by simp
  qed
  have c2: "?free \<and> \<not> bcrypt_compare lib (lb_password b) (u_password_hash usr) \<and>
          int_11 (u_login_attempts usr + 1) \<longrightarrow>
            (\<forall>d1. d1 = ?d1 \<longrightarrow>
               login no_faults lib pf now body d = (Inl Unauthenticated, d1) \<and>
               (5 \<le> u_login_attempts usr + 1 \<longrightarrow>
                  (\<forall>now'. now' < to_timestamp pf (now + 15 * 60 * 1000) \<longrightarrow>
                     login no_faults lib pf now' body' d1 = (Inl Locked, d1)) \<and>
                  (\<forall>now'. to_timestamp pf (now + 15 * 60 * 1000) \<le> now' \<and>
                          bcrypt_compare lib (lb_password b') (u_password_hash usr) \<longrightarrow>
                     (\<exists>usr1. login no_faults lib pf now' body' d1 =
                        (Inr usr1,
                         update_user (u_id usr)
                           (\<lambda>u. u\<lparr>u_login_attempts := 0, u_locked_until := None\<rparr>) d1)))))"
    using login_mismatch[OF assms(1,2), of now pf] lock expired by blast
  have c3: "?free \<and> bcrypt_compare lib (lb_password b) (u_password_hash usr) \<longrightarrow>
            login no_faults lib pf now body d =
              (Inr usr,
               update_user (u_id usr)
                 (\<lambda>u. u\<lparr>u_login_attempts := 0, u_locked_until := None\<rparr>) d)"
    using login_match[OF assms(1,2), of now pf] by blast
  have c4: "\<forall>atts. u_login_attempts usr = 0 \<and> u_locked_until usr = None \<and> length atts = 5 \<and>
            (\<forall>x\<in>set atts. \<exists>bx. loginValidation lib (snd x) = Some bx \<and>
                lb_familyCode bx = lb_familyCode b \<and> lb_email bx = lb_email b \<and>
                \<not> bcrypt_compare lib (lb_password bx) (u_password_hash usr)) \<longrightarrow>
            select_login_user (lb_familyCode b) (lb_email b) (logins lib pf atts d) =
              Some (usr\<lparr>u_login_attempts := 5,
                        u_locked_until :=
                          Some (to_timestamp pf (fst (last atts) + 15 * 60 * 1000))\<rparr>)"
    using five_mismatches[OF assms(2)] by blast
  have c5: "\<forall>flt body0. loginValidation lib body0 = None \<longrightarrow>
            login flt lib pf now body0 d = (Inl ValidationError, d)"
    using login_invalid by blast
  have c6: "\<forall>flt ip lim.
            login_route flt lib pf now ip body (lim, d) =
              (if (case lim ip of None \<Rightarrow> True
                   | Some (count, resetTime) \<Rightarrow> resetTime < now \<or> count < 20)
               then (fst (login flt lib pf now body d),
                     snd (authRateLimit 20 (15 * 60 * 1000) now ip lim),
                     snd (login flt lib pf now body d))
               else (Inl TooManyRequests, lim, d))"
    unfolding login_route_eq authRateLimit_admits by simp
  show ?thesis
    apply (intro conjI)
    subgoal by (rule c1)
    subgoal by simp
    subgoal by (rule c2)
    subgoal by simp
    subgoal by (rule c3)
    subgoal by (rule c4)
    subgoal by (rule c5)
    subgoal by simp
    subgoal by (rule c6)
    subgoal by simp
    done
qed

text \<open>
  The theorem on the reference family: the fifth failure of the child at 00:00:01 locks the
  account until 00:15:01; a second later the right password is answered 423; at 00:15:01
  it logs in and the counter is back at 0; and before the fifth failure it logs in.
\<close>

theorem login_lockout_witness:
  "login no_faults ex_library utc 1000 (ex_login ''wrong-pass'') ex_db_four_failures =
     (Inl Unauthenticated, ex_db_locked) \<and>
   map u_login_attempts (users ex_db_locked) = [0, 5] \<and>
   map u_locked_until (users ex_db_locked) = [None, Some 901000] \<and>
   login no_faults ex_library utc 2000 (ex_login ''kidpass'') ex_db_locked =
     (Inl Locked, ex_db_locked) \<and>
   (\<exists>usr1. login no_faults ex_library utc 901000 (ex_login ''kidpass'') ex_db_locked =
     (Inr usr1, ex_db\<lparr>users := [ex_parent, ex_child\<lparr>u_password_hash := ''hash-kidpass''\<rparr>]\<rparr>)) \<and>
   (\<exists>usr0. login no_faults ex_library utc 1000 (ex_login ''kidpass'') ex_db_four_failures =
     (Inr usr0, ex_db\<lparr>users := [ex_parent, ex_child\<lparr>u_password_hash := ''hash-kidpass''\<rparr>]\<rparr>))"
proof -
  let ?u = "ex_child\<lparr>u_password_hash := ''hash-kidpass'', u_login_attempts := 4\<rparr>"
  have valid: "loginValidation ex_library (ex_login ''wrong-pass'') = Some (ex_login ''wrong-pass'')"
    and valid': "loginValidation ex_library (ex_login ''kidpass'') = Some (ex_login ''kidpass'')"
    by (simp_all add: loginValidation_def ex_library_def ex_login_def trim_def white_space_def)
  have sel: "select_login_user (lb_familyCode (ex_login ''wrong-pass''))
               (lb_email (ex_login ''wrong-pass'')) ex_db_four_failures = Some ?u"
    and sel': "select_login_user (lb_familyCode (ex_login ''kidpass''))
               (lb_email (ex_login ''kidpass'')) ex_db_four_failures = Some ?u"
    by (simp_all add: select_login_user_def ex_db_four_failures_def ex_db_def ex_parent_def
          ex_child_def ex_login_def)
  have same: "lb_familyCode (ex_login ''kidpass'') = lb_familyCode (ex_login ''wrong-pass'')"
    "lb_email (ex_login ''kidpass'') = lb_email (ex_login ''wrong-pass'')"
    by (simp_all add: ex_login_def)
  have free: "u_locked_until ?u = None"
    by (simp add: ex_child_def)
  have wrong: "\<not> bcrypt_compare ex_library (lb_password (ex_login ''wrong-pass'')) (u_password_hash ?u)"
    and right: "bcrypt_compare ex_library (lb_password (ex_login ''kidpass'')) (u_password_hash ?u)"
    by (simp_all add: ex_compare_def ex_library_def ex_login_def)
  have five: "5 \<le> u_login_attempts ?u + 1" and i11: "int_11 (u_login_attempts ?u + 1)"
    by (simp_all add: int_11_def)
  have ts: "to_timestamp utc (1000 + 15 * 60 * 1000) = 901000"
    by (simp add: utc_def fixed_zone_def nearest_second_def)
  have ts': "to_timestamp utc 901000 = 901000"
    by (simp add: utc_def fixed_zone_def nearest_second_def)
  have d1: "update_user (u_id ?u)
              (\<lambda>u. u\<lparr>u_login_attempts := u_login_attempts ?u + 1,
                      u_locked_until :=
                        (if 5 \<le> u_login_attempts ?u + 1
                         then Some (to_timestamp utc (1000 + 15 * 60 * 1000)) else None)\<rparr>)
              ex_db_four_failures = ex_db_locked"
    unfolding ts
    by (simp add: update_user_def ex_db_four_failures_def ex_db_locked_def ex_db_def ex_parent_def
          ex_child_def)
  have reset: "update_user (u_id ?u) (\<lambda>u. u\<lparr>u_login_attempts := 0, u_locked_until := None\<rparr>) ex_db_locked =
                 ex_db\<lparr>users := [ex_parent, ex_child\<lparr>u_password_hash := ''hash-kidpass''\<rparr>]\<rparr>"
    "update_user (u_id ?u) (\<lambda>u. u\<lparr>u_login_attempts := 0, u_locked_until := None\<rparr>) ex_db_four_failures =
                 ex_db\<lparr>users := [ex_parent, ex_child\<lparr>u_password_hash := ''hash-kidpass''\<rparr>]\<rparr>"
    by (simp_all add: update_user_def ex_db_four_failures_def ex_db_locked_def ex_db_def
          ex_parent_def ex_child_def)
  note miss = login_lockout[OF valid sel valid' same, where now = 1000 and pf = utc]
  note hit = login_lockout[OF valid' sel' valid' refl refl, where now = 1000 and pf = utc]
  note c = miss[THEN conjunct2, THEN conjunct2, THEN conjunct1, rule_format,
      OF conjI[OF disjI1[OF free] conjI[OF wrong i11]] d1[symmetric]]
  note 1 = c[THEN conjunct1]
  note rest = c[THEN conjunct2, THEN mp, OF five]
  note lock = rest[THEN conjunct1]
  note expiry = rest[THEN conjunct2]
  have 2: "login no_faults ex_library utc 2000 (ex_login ''kidpass'') ex_db_locked =
             (Inl Locked, ex_db_locked)"
    by (rule lock[rule_format]) (simp add: ts')
  have "\<exists>usr1. login no_faults ex_library utc 901000 (ex_login ''kidpass'') ex_db_locked =
           (Inr usr1, update_user (u_id ?u)
                        (\<lambda>u. u\<lparr>u_login_attempts := 0, u_locked_until := None\<rparr>) ex_db_locked)"
    by (rule expiry[rule_format]) (simp add: ts' ex_compare_def ex_library_def ex_login_def)
  then have 3: "\<exists>usr1. login no_faults ex_library utc 901000 (ex_login ''kidpass'') ex_db_locked =
     (Inr usr1, ex_db\<lparr>users := [ex_parent, ex_child\<lparr>u_password_hash := ''hash-kidpass''\<rparr>]\<rparr>)"
    unfolding reset .
  note h = hit[THEN conjunct2, THEN conjunct2, THEN conjunct2, THEN conjunct2, THEN conjunct1,
      THEN mp, OF conjI[OF disjI1[OF free] right]]
  have 4: "\<exists>usr0. login no_faults ex_library utc 1000 (ex_login ''kidpass'') ex_db_four_failures =
     (Inr usr0, ex_db\<lparr>users := [ex_parent, ex_child\<lparr>u_password_hash := ''hash-kidpass''\<rparr>]\<rparr>)"
  proof (rule exI[of _ ?u])
    show "login no_faults ex_library utc 1000 (ex_login ''kidpass'') ex_db_four_failures =
     (Inr ?u, ex_db\<lparr>users := [ex_parent, ex_child\<lparr>u_password_hash := ''hash-kidpass''\<rparr>]\<rparr>)"
      using h unfolding reset .
  qed
  have 5: "map u_login_attempts (users ex_db_locked) = [0, 5]"
    "map u_locked_until (users ex_db_locked) = [None, Some 901000]"
    by (simp_all add: ex_db_locked_def ex_db_def ex_parent_def ex_child_def)
  show ?thesis
    by (intro conjI) (rule 1 5 2 3 4)+
qed

text \<open>
  The claim as stated fails for a request that does not reach the lock check: on the
  locked account an attempt with a password of three characters is answered 400, not 423,
  and an attempt from an address that has used up its 20 requests is answered 429.
\<close>

theorem login_locked_counterexample:
  "map u_locked_until (users ex_db_locked) = [None, Some 901000] \<and>
   (2000 :: int) < 901000 \<and>
   select_login_user ''FAM001'' ''kid@example.org'' ex_db_locked =
     Some (ex_child\<lparr>u_password_hash := ''hash-kidpass'', u_login_attempts := 5,
                    u_locked_until := Some 901000\<rparr>) \<and>
   login no_faults ex_library utc 2000 (ex_login ''kid'') ex_db_locked =
     (Inl ValidationError, ex_db_locked) \<and>
   status_code ValidationError = 400 \<and>
   fst (login_route no_faults ex_library utc 2000 ''203.0.113.7'' (ex_login ''kidpass'')
          ((\<lambda>ip. Some (20, 900000)), ex_db_locked)) = Inl TooManyRequests \<and>
   status_code TooManyRequests = 429 \<and>
   status_code Locked = 423"
  by (simp add: login_def loginValidation_def login_route_def authRateLimit_def ex_library_def
        ex_login_def trim_def white_space_def select_login_user_def ex_db_locked_def ex_db_def
        ex_parent_def ex_child_def)


section \<open>The first due date of a weekly template\<close>











end
